theory Spec2Isabelle
  imports Main "HOL-Library.Sublist"
begin

section \<open>Strings and the string operations of the host language\<close>

text \<open>
  A Python \<open>str\<close> is modelled as the list of bytes of its UTF-8 encoding: two strings are
  equal exactly when their encodings are, and a substring test (\<open>in\<close>) is a contiguous
  sublist test. The characters of the templates that lie outside ASCII are named here.
\<close>

definition rsquo :: string where
  "rsquo = [CHR 0xE2, CHR 0x80, CHR 0x99]"

definition ldquo :: string where
  "ldquo = [CHR 0xE2, CHR 0x80, CHR 0x9C]"

definition rdquo :: string where
  "rdquo = [CHR 0xE2, CHR 0x80, CHR 0x9D]"

definition hellip :: string where
  "hellip = [CHR 0xE2, CHR 0x80, CHR 0xA6]"

definition waving_hand :: string where
  "waving_hand = [CHR 0xF0, CHR 0x9F, CHR 0x91, CHR 0x8B]"

text \<open>
  Exceptions are values. \<open>LookupError\<close> stands for \<open>KeyError\<close> and \<open>IndexError\<close> raised
  by a replacement field that names no argument. \<open>External n\<close> is any exception raised
  inside a collaborator that is not part of this module.
\<close>

datatype error =
    ValueError
  | LookupError
  | TypeError
  | IndexError
  | AssertionError
  | External nat

text \<open>The text of a replacement field: everything up to the first closing brace.\<close>

fun take_field :: "string \<Rightarrow> (string \<times> string) option" where
  "take_field [] = None"
| "take_field (c # cs) =
     (if c = CHR ''}'' then Some ([], cs)
      else (case take_field cs of
              None \<Rightarrow> None
            | Some (f, r) \<Rightarrow> Some (c # f, r)))"

lemma take_field_length: "take_field cs = Some (f, r) \<Longrightarrow> length r < length cs"
  by (induction cs arbitrary: f r) (auto split: if_splits option.splits)

definition field_special :: "char \<Rightarrow> bool" where
  "field_special c \<longleftrightarrow> c \<in> set ''{!:.[]''"

text \<open>
  \<open>template.format(**kwargs)\<close> with string arguments, scanned from left to right
  as Python does: \<open>{{\<close> and \<open>}}\<close> are escaped braces, a single \<open>}\<close> or an unclosed
  \<open>{\<close> is a \<open>ValueError\<close>, and \<open>{name}\<close> is replaced by the argument of that name.
  The keyword arguments of this module are identifiers, so an empty or numeric field name
  (a positional reference, with no positional argument given) finds nothing, like an
  unknown name. The scan gives \<open>None\<close> when it meets, before any error, a replacement
  field that is more than a name (a conversion, a format specification, attribute or index
  access, a nested field).
\<close>

function plain_format :: "string \<Rightarrow> (string \<times> string) list \<Rightarrow> (error + string) option" where
  "plain_format [] kwargs = Some (Inr [])"
| "plain_format (c # cs) kwargs =
     (if c = CHR ''{'' then
        (case cs of
           d # r \<Rightarrow>
             if d = CHR ''{'' then
               (case plain_format r kwargs of
                  Some (Inr s) \<Rightarrow> Some (Inr (CHR ''{'' # s))
                | other \<Rightarrow> other)
             else
               (case take_field cs of
                  None \<Rightarrow> Some (Inl ValueError)
                | Some (f, rest) \<Rightarrow>
                    if \<exists>x \<in> set f. field_special x then None
                    else (case map_of kwargs f of
                            None \<Rightarrow> Some (Inl LookupError)
                          | Some v \<Rightarrow>
                              (case plain_format rest kwargs of
                                 Some (Inr s) \<Rightarrow> Some (Inr (v @ s))
                               | other \<Rightarrow> other)))
         | [] \<Rightarrow> Some (Inl ValueError))
      else if c = CHR ''}'' then
        (case cs of
           d # r \<Rightarrow>
             if d = CHR ''}'' then
               (case plain_format r kwargs of
                  Some (Inr s) \<Rightarrow> Some (Inr (CHR ''}'' # s))
                | other \<Rightarrow> other)
             else Some (Inl ValueError)
         | [] \<Rightarrow> Some (Inl ValueError))
      else (case plain_format cs kwargs of
              Some (Inr s) \<Rightarrow> Some (Inr (c # s))
            | other \<Rightarrow> other))"
  by pat_completeness auto
termination
  by (relation "measure (\<lambda>(t, kwargs). length t)")
     (auto dest!: take_field_length simp del: take_field.simps)

text \<open>
  \<open>str.format\<close>: the scan above, and for a template with a replacement field that is more
  than a name the formatting of the interpreter, which is taken as a parameter. No
  template of this module has such a field; a translation of one may.
\<close>

definition str_format ::
  "(string \<Rightarrow> (string \<times> string) list \<Rightarrow> error + string)
     \<Rightarrow> string \<Rightarrow> (string \<times> string) list \<Rightarrow> error + string" where
  "str_format general template kwargs =
     (case plain_format template kwargs of
        Some result \<Rightarrow> result
      | None \<Rightarrow> general template kwargs)"

text \<open>
  \<open>template % args\<close> for a tuple of strings: \<open>%s\<close> consumes the next argument,
  \<open>%%\<close> is a percent sign; too few or too many arguments are a \<open>TypeError\<close>, a
  trailing \<open>%\<close> is a \<open>ValueError\<close>. The scan gives \<open>None\<close> when it meets, before any
  error, a directive other than these two; the interpreter's treatment of such a template
  is a parameter of \<open>percent_format\<close>.
\<close>

fun plain_percent :: "string \<Rightarrow> string list \<Rightarrow> (error + string) option" where
  "plain_percent [] args = Some (if args = [] then Inr [] else Inl TypeError)"
| "plain_percent [c] args =
     Some (if c = CHR ''%'' then Inl ValueError
           else if args = [] then Inr [c] else Inl TypeError)"
| "plain_percent (c # d # r) args =
     (if c = CHR ''%'' then
        (if d = CHR ''%'' then
           (case plain_percent r args of
              Some (Inr s) \<Rightarrow> Some (Inr (CHR ''%'' # s))
            | other \<Rightarrow> other)
         else if d = CHR ''s'' then
           (case args of
              [] \<Rightarrow> Some (Inl TypeError)
            | a # as \<Rightarrow>
                (case plain_percent r as of
                   Some (Inr s) \<Rightarrow> Some (Inr (a @ s))
                 | other \<Rightarrow> other))
         else None)
      else (case plain_percent (d # r) args of
              Some (Inr s) \<Rightarrow> Some (Inr (c # s))
            | other \<Rightarrow> other))"

definition percent_format ::
  "(string \<Rightarrow> string list \<Rightarrow> error + string) \<Rightarrow> string \<Rightarrow> string list \<Rightarrow> error + string" where
  "percent_format general template args =
     (case plain_percent template args of
        Some result \<Rightarrow> result
      | None \<Rightarrow> general template args)"

text \<open>\<open>sep.join(parts)\<close>.\<close>

fun join :: "string \<Rightarrow> string list \<Rightarrow> string" where
  "join sep [] = []"
| "join sep [x] = x"
| "join sep (x # y # ys) = x @ sep @ join sep (y # ys)"

text \<open>
  \<open>str.lower()\<close>: CPython lowercases a pure-ASCII string byte by byte (\<open>A\<close>..\<open>Z\<close> to
  \<open>a\<close>..\<open>z\<close>) and otherwise applies the Unicode case mapping, which is a table of the
  interpreter and is taken as a parameter.
\<close>

definition is_ascii :: "char \<Rightarrow> bool" where
  "is_ascii c \<longleftrightarrow> (of_char c :: nat) < 128"

definition ascii_lower :: "char \<Rightarrow> char" where
  "ascii_lower c =
     (case map_of (zip ''ABCDEFGHIJKLMNOPQRSTUVWXYZ'' ''abcdefghijklmnopqrstuvwxyz'') c of
        Some d \<Rightarrow> d
      | None \<Rightarrow> c)"

definition lower :: "(string \<Rightarrow> string) \<Rightarrow> string \<Rightarrow> string" where
  "lower unicode_lower s =
     (if \<forall>c \<in> set s. is_ascii c then map ascii_lower s else unicode_lower s)"

text \<open>Raising the first exception of a list of computations, as a comprehension does.\<close>

fun collect :: "(error + 'a) list \<Rightarrow> error + 'a list" where
  "collect [] = Inr []"
| "collect (r # rs) =
     (case r of
        Inl e \<Rightarrow> Inl e
      | Inr x \<Rightarrow> (case collect rs of Inl e \<Rightarrow> Inl e | Inr xs \<Rightarrow> Inr (x # xs)))"

section \<open>Configuration and collaborators outside this module\<close>

record bot_config =
  var_name :: string
  email_template :: string
  name :: string

text \<open>
  What the module reads from its surroundings: the translation catalogue (\<open>gettext lang msgid\<close>
  is the translation of \<open>msgid\<close> while \<open>lang\<close> is the active language), the
  newline normaliser of \<open>zerver.lib.message\<close>, the interpreter's Unicode lowercasing and
  its formatting of templates beyond plain fields, the settings, and the constants of the
  \<open>Realm\<close> model (the channel names are lazily translated, so their \<open>str()\<close> depends on
  the active language).
\<close>

record env =
  gettext :: "string \<Rightarrow> string \<Rightarrow> string"
  remove_single_newlines :: "string \<Rightarrow> string"
  unicode_lower :: "string \<Rightarrow> string"
  general_format :: "string \<Rightarrow> (string \<times> string) list \<Rightarrow> error + string"
  general_percent :: "string \<Rightarrow> string list \<Rightarrow> error + string"
  WELCOME_BOT :: string
  INTERNAL_BOT_DOMAIN :: string
  REALM_INTERNAL_BOTS :: "bot_config list"
  ORG_TYPES_id :: "string \<Rightarrow> nat"
  ZULIP_DISCUSSION_CHANNEL_NAME :: "string \<Rightarrow> string"
  ZULIP_SANDBOX_CHANNEL_NAME :: "string \<Rightarrow> string"
  DEFAULT_NOTIFICATION_STREAM_NAME :: "string \<Rightarrow> string"

section \<open>The Welcome Bot responder\<close>

definition bot_commands :: "bool \<Rightarrow> string" where
  "bot_commands no_help_command =
     (let commands =
            [''apps'',
             ''profile'',
             ''theme'',
             ''channels'',
             ''topics'',
             ''message formatting'',
             ''keyboard shortcuts''];
          commands = (if \<not> no_help_command then commands @ [''help''] else commands)
      in join '', '' (map (\<lambda>command. ''`'' @ command @ ''`'') commands) @ ''.'')"

definition select_welcome_bot_response :: "env \<Rightarrow> string \<Rightarrow> string \<Rightarrow> error + string" where
  \<open>select_welcome_bot_response E lang human_response_lower =
     (if human_response_lower \<in> set [''app'', ''apps''] then
        Inr (gettext E lang
          ''\<newline>You can [download](/apps/) the [mobile and desktop apps](/apps/).\<newline>Zulip also works great in a browser.\<newline>'')
      else if human_response_lower = ''profile'' then
        Inr (gettext E lang
          ''\<newline>Go to [Profile settings](#settings/profile) to add a [profile picture](/help/change-your-profile-picture)\<newline>and edit your [profile information](/help/edit-your-profile).\<newline>'')
      else if human_response_lower = ''theme'' then
        Inr (gettext E lang
          ''\<newline>Go to [Preferences](#settings/preferences) to [switch between the light and dark themes](/help/dark-theme),\<newline>[pick your favorite emoji theme](/help/emoji-and-emoticons#change-your-emoji-set),\<newline>[change your language](/help/change-your-language), and make other tweaks\<newline>to your Zulip experience.\<newline>'')
      else if human_response_lower \<in> set [''stream'', ''streams'', ''channel'', ''channels''] then
        str_format (general_format E) (gettext E lang
          ''\<newline>In Zulip, channels [determine who gets a message]({help_link}).\<newline>\<newline>[Browse and subscribe to channels]({settings_link}).\<newline>'')
          [(''help_link'', ''/help/introduction-to-channels''), (''settings_link'', ''#channels/all'')]
      else if human_response_lower \<in> set [''topic'', ''topics''] then
        Inr (gettext E lang
          ''\<newline>In Zulip, topics [tell you what a message is about](/help/introduction-to-topics).\<newline>They are light-weight subjects, very similar to the subject line of an email.\<newline>\<newline>Check out [Recent conversations](#recent) to see what's happening!\<newline>You can return to this conversation by clicking "Direct messages" in the upper left.\<newline>'')
      else if human_response_lower \<in> set [''keyboard'', ''shortcuts'', ''keyboard shortcuts''] then
        Inr (gettext E lang
          ''\<newline>Zulip's [keyboard shortcuts](#keyboard-shortcuts) let you navigate the app\<newline>quickly and efficiently.\<newline>\<newline>Press `?` any time to see a [cheat sheet](#keyboard-shortcuts).\<newline>'')
      else if human_response_lower \<in> set [''formatting'', ''message formatting''] then
        Inr (gettext E lang
          ''\<newline>Zulip uses [Markdown](/help/format-your-message-using-markdown),\<newline>an intuitive format for **bold**, *italics*, bulleted lists, and more.\<newline>Click [here](#message-formatting) for a cheat sheet.\<newline>\<newline>Check out our [messaging tips](/help/messaging-tips) to learn\<newline>about emoji reactions, code blocks and much more!\<newline>'')
      else if human_response_lower \<in> set [''help'', ''?''] then
        str_format (general_format E) (gettext E lang
          ''\<newline>Here are a few messages I understand: {bot_commands}\<newline>\<newline>Check out our [Getting started guide](/help/getting-started-with-zulip),\<newline>or browse the [Help center](/help/) to learn more!\<newline>'')
          [(''bot_commands'', bot_commands True)]
      else
        str_format (general_format E) (gettext E lang
          (''\<newline>I'' @ rsquo @ ''m sorry, I did not understand your message. Please try\<newline>one of the following commands: {bot_commands}\<newline>''))
          [(''bot_commands'', bot_commands False)])\<close>

section \<open>The data model\<close>

text \<open>
  Rows of the models this module reads and writes, with the fields it touches. A field that
  the source calls \<open>id\<close>, \<open>realm\<close>, \<open>content\<close> or \<open>message_id\<close> on several models carries
  the model's name here.
\<close>

record realm =
  realm_id :: nat
  org_type :: nat
  demo_organization_scheduled_deletion_date :: "nat option"

record user_profile =
  user_id :: nat
  email :: string
  user_realm :: realm
  is_realm_admin :: bool
  is_realm_owner :: bool
  default_language :: string

datatype recipient = Channel string string | Direct nat

record message =
  msg_id :: nat
  msg_sender :: user_profile
  msg_recipient :: recipient
  msg_content :: string

text \<open>The flags of an onboarding marker row form a bit field; \<open>|\<close> is union.\<close>

datatype flag = historical | starred

record onboarding_user_message =
  oum_realm :: realm
  oum_message_id :: nat
  flags :: "flag set"

record reaction =
  reaction_user :: user_profile
  reaction_message :: message
  emoji_name :: string
  reaction_emoji_code :: string
  reaction_reaction_type :: string

record db =
  Realm_objects :: "realm list"
  UserProfile_objects :: "user_profile list"
  Message_objects :: "message list"
  OnboardingUserMessage_objects :: "onboarding_user_message list"
  Reaction_objects :: "reaction list"

record send_message_request =
  request_realm :: realm
  request_message :: message

record sent_message_result =
  result_message_id :: nat

record emoji_data =
  emoji_code :: string
  reaction_type :: string

text \<open>
  The messaging substrate is consumed through narrow calls and is not part of this module:
  it is a parameter. Look-ups read the database; the sending calls and the reaction call
  return the database as they leave it, also when they raise. \<open>'req\<close> is whatever
  \<open>internal_prep_stream_message_by_name\<close> hands to \<open>do_send_messages\<close>.
\<close>

record 'req backend =
  get_system_bot :: "string \<Rightarrow> nat \<Rightarrow> db \<Rightarrow> error + user_profile"
  internal_prep_stream_message_by_name ::
    "realm \<Rightarrow> user_profile \<Rightarrow> string \<Rightarrow> string \<Rightarrow> string \<Rightarrow> db \<Rightarrow> error + 'req"
  do_send_messages :: "'req list \<Rightarrow> db \<Rightarrow> (error + sent_message_result list) \<times> db"
  internal_send_private_message ::
    "user_profile \<Rightarrow> user_profile \<Rightarrow> string \<Rightarrow> bool \<Rightarrow> db \<Rightarrow> (error + nat option) \<times> db"
  get_emoji_data :: "nat \<Rightarrow> string \<Rightarrow> db \<Rightarrow> error + emoji_data"
  do_add_reaction ::
    "user_profile \<Rightarrow> message \<Rightarrow> string \<Rightarrow> string \<Rightarrow> string \<Rightarrow> db \<Rightarrow> (error + unit) \<times> db"

section \<open>System-bot provisioning\<close>

definition internal_bot_emails :: "env \<Rightarrow> error + string list" where
  "internal_bot_emails E =
     collect (map (\<lambda>bot. percent_format (general_percent E) (email_template bot)
                          [INTERNAL_BOT_DOMAIN E])
                  (REALM_INTERNAL_BOTS E))"

text \<open>
  The query groups the accounts whose email is one of the bot emails by email, counts the
  rows of each group, keeps the groups whose count is the number of organizations, and
  counts what is left.
\<close>

definition missing_any_realm_internal_bots :: "env \<Rightarrow> db \<Rightarrow> error + bool" where
  "missing_any_realm_internal_bots E db =
     (case internal_bot_emails E of
        Inl e \<Rightarrow> Inl e
      | Inr bot_emails \<Rightarrow>
          let realm_count = length (Realm_objects db);
              matching = filter (\<lambda>u. email u \<in> set bot_emails) (UserProfile_objects db);
              annotated = map (\<lambda>e. (e, length (filter (\<lambda>u. email u = e) matching)))
                              (remdups (map email matching))
          in Inr (length (filter (\<lambda>(e, count). count = realm_count) annotated)
                    \<noteq> length bot_emails))"

text \<open>
  Modelled from the spec: \<open>setup_realm_internal_bots\<close> of \<open>zerver.actions.create_realm\<close> is
  not among the sources. The spec has it create the missing bots of an organization: for
  each configured bot email with no account in the organization, one account with that
  email is added to it; nothing else changes.
\<close>

definition fresh_user_id :: "db \<Rightarrow> nat" where
  "fresh_user_id db = Suc (fold max (map user_id (UserProfile_objects db)) 0)"

definition create_bot :: "realm \<Rightarrow> string \<Rightarrow> db \<Rightarrow> db" where
  "create_bot r e db =
     (if \<exists>u \<in> set (UserProfile_objects db). email u = e \<and> realm_id (user_realm u) = realm_id r then db
      else db\<lparr>UserProfile_objects := UserProfile_objects db @
             [\<lparr>user_id = fresh_user_id db, email = e, user_realm = r,
               is_realm_admin = False, is_realm_owner = False, default_language = ''en''\<rparr>]\<rparr>)"

definition setup_realm_internal_bots :: "env \<Rightarrow> realm \<Rightarrow> db \<Rightarrow> (error + unit) \<times> db" where
  "setup_realm_internal_bots E r db =
     (case internal_bot_emails E of
        Inl e \<Rightarrow> (Inl e, db)
      | Inr bot_emails \<Rightarrow> (Inr (), fold (create_bot r) bot_emails db))"

text \<open>The \<open>for\<close> loop over the organizations; an exception ends it where it is.\<close>

fun for_each_realm ::
  "(realm \<Rightarrow> db \<Rightarrow> (error + unit) \<times> db) \<Rightarrow> realm list \<Rightarrow> db \<Rightarrow> (error + unit) \<times> db" where
  "for_each_realm f [] db = (Inr (), db)"
| "for_each_realm f (r # rs) db =
     (case f r db of
        (Inl e, db') \<Rightarrow> (Inl e, db')
      | (Inr u, db') \<Rightarrow> for_each_realm f rs db')"

definition create_if_missing_realm_internal_bots :: "env \<Rightarrow> db \<Rightarrow> (error + unit) \<times> db" where
  "create_if_missing_realm_internal_bots E db =
     (case missing_any_realm_internal_bots E db of
        Inl e \<Rightarrow> (Inl e, db)
      | Inr missing \<Rightarrow>
          if missing then for_each_realm (setup_realm_internal_bots E) (Realm_objects db) db
          else (Inr (), db))"

section \<open>The initial direct message\<close>

text \<open>
  The block under \<open>override_language(user.default_language)\<close>: the content of the welcome
  direct message, or the exception of a \<open>format\<close> call.
\<close>

definition initial_direct_message_content :: "env \<Rightarrow> user_profile \<Rightarrow> error + string" where
  "initial_direct_message_content E user =
     (let education_organization =
            (org_type (user_realm user) \<in>
               set [ORG_TYPES_id E ''education_nonprofit'', ORG_TYPES_id E ''education''])
      in
      (case (if education_organization then
               str_format (general_format E) (gettext E (default_language user)
                 ''\<newline>If you are new to Zulip, check out our [Using Zulip for a class guide]({getting_started_url})!\<newline>'')
                 [(''getting_started_url'', ''/help/using-zulip-for-a-class'')]
             else
               str_format (general_format E) (gettext E (default_language user)
                 ''\<newline>If you are new to Zulip, check out our [Getting started guide]({getting_started_url})!\<newline>'')
                 [(''getting_started_url'', ''/help/getting-started-with-zulip'')]) of
         Inl e \<Rightarrow> Inl e
       | Inr getting_started_string \<Rightarrow>
      (case (if is_realm_admin user then
               (if education_organization then
                  str_format (general_format E) (gettext E (default_language user)
                    ''\<newline>We also have a guide for [Setting up Zulip for a class]({organization_setup_url}).\<newline>'')
                    [(''organization_setup_url'', ''/help/setting-up-zulip-for-a-class'')]
                else
                  str_format (general_format E) (gettext E (default_language user)
                    ''\<newline>We also have a guide for [Setting up your organization]({organization_setup_url}).\<newline>'')
                    [(''organization_setup_url'', ''/help/getting-your-organization-started-with-zulip'')])
             else Inr []) of
         Inl e \<Rightarrow> Inl e
       | Inr organization_setup_string \<Rightarrow>
      (case (if is_realm_owner user
                \<and> demo_organization_scheduled_deletion_date (user_realm user) \<noteq> None then
               str_format (general_format E) (gettext E (default_language user)
                 ''\<newline>Note that this is a [demo organization]({demo_organization_help_url}) and\<newline>will be **automatically deleted** in 30 days.\<newline>'')
                 [(''demo_organization_help_url'', ''/help/demo-organizations'')]
             else Inr []) of
         Inl e \<Rightarrow> Inl e
       | Inr demo_organization_warning_string \<Rightarrow>
           str_format (general_format E) (gettext E (default_language user)
             (''\<newline>Hello, and welcome to Zulip!'' @ waving_hand @ '' This is a direct message from me, Welcome Bot.\<newline>\<newline>{getting_started_text} {organization_setup_text}\<newline>\<newline>{demo_organization_text}\<newline>\<newline>I can also help you get set up! Just click anywhere on this message or press `r` to reply.\<newline>\<newline>Here are a few messages I understand: {bot_commands}\<newline>''))
             [(''getting_started_text'', getting_started_string),
              (''organization_setup_text'', organization_setup_string),
              (''demo_organization_text'', demo_organization_warning_string),
              (''bot_commands'', bot_commands False)]))))"

definition send_initial_direct_message ::
  "'req backend \<Rightarrow> env \<Rightarrow> user_profile \<Rightarrow> db \<Rightarrow> (error + nat) \<times> db" where
  "send_initial_direct_message B E user db =
     (case initial_direct_message_content E user of
        Inl e \<Rightarrow> (Inl e, db)
      | Inr content \<Rightarrow>
     (case get_system_bot B (WELCOME_BOT E) (realm_id (user_realm user)) db of
        Inl e \<Rightarrow> (Inl e, db)
      | Inr welcome_bot \<Rightarrow>
     (case internal_send_private_message B welcome_bot user
             (remove_single_newlines E content) True db of
        (Inl e, db') \<Rightarrow> (Inl e, db')
      | (Inr None, db') \<Rightarrow> (Inl AssertionError, db')
      | (Inr (Some message_id), db') \<Rightarrow> (Inr message_id, db'))))"

section \<open>Replying to a direct message\<close>

definition send_welcome_bot_response ::
  "'req backend \<Rightarrow> env \<Rightarrow> string \<Rightarrow> send_message_request \<Rightarrow> db \<Rightarrow> (error + unit) \<times> db" where
  "send_welcome_bot_response B E lang send_request db =
     (case get_system_bot B (WELCOME_BOT E) (realm_id (request_realm send_request)) db of
        Inl e \<Rightarrow> (Inl e, db)
      | Inr welcome_bot \<Rightarrow>
     (let human_response_lower =
            lower (unicode_lower E) (msg_content (request_message send_request))
      in
     (case select_welcome_bot_response E lang human_response_lower of
        Inl e \<Rightarrow> (Inl e, db)
      | Inr content \<Rightarrow>
     (case internal_send_private_message B welcome_bot
             (msg_sender (request_message send_request))
             (remove_single_newlines E content) True db of
        (Inl e, db') \<Rightarrow> (Inl e, db')
      | (Inr sent, db') \<Rightarrow> (Inr (), db')))))"

section \<open>The initial messages of a new organization\<close>

subsection \<open>Declared content\<close>

definition content1_of_moving_messages_topic_name :: "env \<Rightarrow> string \<Rightarrow> error + string" where
  "content1_of_moving_messages_topic_name E lang =
     str_format (general_format E) (gettext E lang
       (''\<newline>If anything is out of place, it'' @ rsquo @ ''s easy to [move messages]({move_content_another_topic_help_url}),\<newline>[rename]({rename_topic_help_url}) and [split]({move_content_another_topic_help_url}) topics,\<newline>or even move a topic [to a different channel]({move_content_another_channel_help_url}).\<newline>''))
       [(''move_content_another_topic_help_url'', ''/help/move-content-to-another-topic''),
        (''rename_topic_help_url'', ''/help/rename-a-topic''),
        (''move_content_another_channel_help_url'', ''/help/move-content-to-another-channel'')]"

definition content2_of_moving_messages_topic_name :: "env \<Rightarrow> string \<Rightarrow> string" where
  "content2_of_moving_messages_topic_name E lang =
     gettext E lang
       ''\<newline>:point_right: Try moving this message to another topic and back.\<newline>''"

definition content1_of_welcome_to_zulip_topic_name :: "env \<Rightarrow> string \<Rightarrow> error + string" where
  "content1_of_welcome_to_zulip_topic_name E lang =
     str_format (general_format E) (gettext E lang
       (''\<newline>Zulip is organized to help you communicate more efficiently. Conversations are\<newline>labeled with topics, which summarize what the conversation is about.\<newline>\<newline>For example, this message is in the '' @ ldquo @ ''{topic_name}'' @ rdquo @ '' topic in the\<newline>#**{zulip_discussion_channel_name}** channel, as you can see in the left sidebar\<newline>and above.\<newline>''))
       [(''zulip_discussion_channel_name'', ZULIP_DISCUSSION_CHANNEL_NAME E lang),
        (''topic_name'', gettext E lang ''welcome to Zulip!'')]"

definition content2_of_welcome_to_zulip_topic_name :: "env \<Rightarrow> string \<Rightarrow> string" where
  "content2_of_welcome_to_zulip_topic_name E lang =
     gettext E lang
       ''\<newline>You can read Zulip one conversation at a time, seeing each message in context,\<newline>no matter how many other conversations are going on.\<newline>''"

definition content3_of_welcome_to_zulip_topic_name :: "env \<Rightarrow> string \<Rightarrow> string" where
  "content3_of_welcome_to_zulip_topic_name E lang =
     gettext E lang
       ''\<newline>:point_right: When you're ready, check out your [Inbox](/#inbox) for other\<newline>conversations with unread messages.\<newline>''"

definition content1_of_start_conversation_topic_name :: "env \<Rightarrow> string \<Rightarrow> string" where
  "content1_of_start_conversation_topic_name E lang =
     gettext E lang
       ''\<newline>To kick off a new conversation, click **Start new conversation** below.\<newline>The new conversation thread will be labeled with its own topic.\<newline>''"

definition content2_of_start_conversation_topic_name :: "env \<Rightarrow> string \<Rightarrow> string" where
  "content2_of_start_conversation_topic_name E lang =
     gettext E lang
       (''\<newline>For a good topic name, think about finishing the sentence: '' @ ldquo @ ''Hey, can we chat about'' @ hellip @ ''?'' @ rdquo @ ''\<newline>'')"

definition content3_of_start_conversation_topic_name :: "env \<Rightarrow> string \<Rightarrow> string" where
  "content3_of_start_conversation_topic_name E lang =
     gettext E lang
       ''\<newline>:point_right: Try starting a new conversation in this channel.\<newline>''"

definition content1_of_experiments_topic_name :: "env \<Rightarrow> string \<Rightarrow> error + string" where
  "content1_of_experiments_topic_name E lang =
     str_format (general_format E) (gettext E lang
       ''\<newline>:point_right:  Use this topic to try out [Zulip's messaging features]({format_message_help_url}).\<newline>'')
       [(''format_message_help_url'', ''/help/format-your-message-using-markdown'')]"

definition content2_of_experiments_topic_name :: "env \<Rightarrow> string \<Rightarrow> error + string" where
  \<open>content2_of_experiments_topic_name E lang =
     str_format (general_format E) (gettext E lang
       ''\<newline>```spoiler Want to see some examples?\<newline>\<newline>````python\<newline>print("code blocks")\<newline>````\<newline>\<newline>- bulleted\<newline>- lists\<newline>\<newline>Link to a conversation: #**{zulip_discussion_channel_name}>{topic_name}**\<newline>```\<newline>'')
       [(''zulip_discussion_channel_name'', ZULIP_DISCUSSION_CHANNEL_NAME E lang),
        (''topic_name'', gettext E lang ''welcome to Zulip!'')]\<close>

definition content1_of_greetings_topic_name :: "env \<Rightarrow> string \<Rightarrow> string" where
  "content1_of_greetings_topic_name E lang =
     gettext E lang
       (''\<newline>This **greetings** topic is a great place to say '' @ ldquo @ ''hi'' @ rdquo @ '' :wave: to your teammates.\<newline>'')"

definition content2_of_greetings_topic_name :: "env \<Rightarrow> string \<Rightarrow> string" where
  "content2_of_greetings_topic_name E lang =
     gettext E lang
       ''\<newline>:point_right: Click on this message to start a new message in the same conversation.\<newline>''"

record welcome_message =
  channel_name :: string
  topic_name :: string
  content :: string

text \<open>
  The list \<open>welcome_messages\<close> as the five \<open>+=\<close> build it; the first \<open>format\<close> call
  that raises, in the order of the declarations, ends the function.
\<close>

definition welcome_messages :: "env \<Rightarrow> string \<Rightarrow> error + welcome_message list" where
  "welcome_messages E lang =
     (case content1_of_moving_messages_topic_name E lang of
        Inl e \<Rightarrow> Inl e
      | Inr content1_of_moving_messages \<Rightarrow>
     (case content1_of_welcome_to_zulip_topic_name E lang of
        Inl e \<Rightarrow> Inl e
      | Inr content1_of_welcome_to_zulip \<Rightarrow>
     (case content1_of_experiments_topic_name E lang of
        Inl e \<Rightarrow> Inl e
      | Inr content1_of_experiments \<Rightarrow>
     (case content2_of_experiments_topic_name E lang of
        Inl e \<Rightarrow> Inl e
      | Inr content2_of_experiments \<Rightarrow>
        Inr (map (\<lambda>content.
                   \<lparr>channel_name = ZULIP_DISCUSSION_CHANNEL_NAME E lang,
                    topic_name = gettext E lang ''moving messages'',
                    content = content\<rparr>)
                 [content1_of_moving_messages,
                  content2_of_moving_messages_topic_name E lang]
           @ map (\<lambda>content.
                   \<lparr>channel_name = ZULIP_SANDBOX_CHANNEL_NAME E lang,
                    topic_name = gettext E lang ''experiments'',
                    content = content\<rparr>)
                 [content1_of_experiments, content2_of_experiments]
           @ map (\<lambda>content.
                   \<lparr>channel_name = ZULIP_SANDBOX_CHANNEL_NAME E lang,
                    topic_name = gettext E lang ''start a conversation'',
                    content = content\<rparr>)
                 [content1_of_start_conversation_topic_name E lang,
                  content2_of_start_conversation_topic_name E lang,
                  content3_of_start_conversation_topic_name E lang]
           @ map (\<lambda>content.
                   \<lparr>channel_name = DEFAULT_NOTIFICATION_STREAM_NAME E lang,
                    topic_name = gettext E lang ''greetings'',
                    content = content\<rparr>)
                 [content1_of_greetings_topic_name E lang,
                  content2_of_greetings_topic_name E lang]
           @ map (\<lambda>content.
                   \<lparr>channel_name = ZULIP_DISCUSSION_CHANNEL_NAME E lang,
                    topic_name = gettext E lang ''welcome to Zulip!'',
                    content = content\<rparr>)
                 [content1_of_welcome_to_zulip,
                  content2_of_welcome_to_zulip_topic_name E lang,
                  content3_of_welcome_to_zulip_topic_name E lang])))))"

subsection \<open>Sending and bookkeeping\<close>

text \<open>
  The loop over \<open>enumerate(welcome_messages)\<close>: the id at the position of the first message
  of each topic. \<open>message_ids[index]\<close> raises when the list of ids is too short.
\<close>

fun onboarding_topics_first_message_ids ::
  "(nat \<times> welcome_message) list \<Rightarrow> nat list \<Rightarrow> string set \<Rightarrow> nat set \<Rightarrow> error + nat set" where
  "onboarding_topics_first_message_ids [] message_ids seen_topics first_ids = Inr first_ids"
| "onboarding_topics_first_message_ids ((index, message) # rest) message_ids seen_topics first_ids =
     (if topic_name message \<notin> seen_topics then
        (if index < length message_ids then
           onboarding_topics_first_message_ids rest message_ids
             (insert (topic_name message) seen_topics)
             (insert (message_ids ! index) first_ids)
         else Inl IndexError)
      else onboarding_topics_first_message_ids rest message_ids seen_topics first_ids)"

definition onboarding_user_messages ::
  "realm \<Rightarrow> nat set \<Rightarrow> nat list \<Rightarrow> onboarding_user_message list" where
  "onboarding_user_messages realm first_ids message_ids =
     map (\<lambda>message_id.
            \<lparr>oum_realm = realm, oum_message_id = message_id,
             flags = (if message_id \<in> first_ids then {historical} \<union> {starred}
                      else {historical})\<rparr>)
         message_ids"

definition bulk_create :: "onboarding_user_message list \<Rightarrow> db \<Rightarrow> db" where
  "bulk_create rows db =
     db\<lparr>OnboardingUserMessage_objects := OnboardingUserMessage_objects db @ rows\<rparr>"

text \<open>\<open>.first()\<close> of an unordered query: the row with the least primary key, if any.\<close>

definition first_by_pk :: "message list \<Rightarrow> message option" where
  "first_by_pk rows = (case sort_key msg_id rows of [] \<Rightarrow> None | m # ms \<Rightarrow> Some m)"

definition greetings_message :: "env \<Rightarrow> string \<Rightarrow> nat list \<Rightarrow> db \<Rightarrow> message option" where
  "greetings_message E lang message_ids db =
     first_by_pk
       (filter (\<lambda>m. msg_id m \<in> set message_ids
                   \<and> msg_content m =
                       remove_single_newlines E (content1_of_greetings_topic_name E lang))
               (Message_objects db))"

text \<open>
  The last step of the function: one of the greetings messages just sent is looked up by
  its content, asserted to exist, and given the wave reaction of the Welcome Bot.
\<close>

definition react_to_greetings ::
  "'req backend \<Rightarrow> env \<Rightarrow> string \<Rightarrow> realm \<Rightarrow> user_profile \<Rightarrow> nat list \<Rightarrow> db
     \<Rightarrow> (error + unit) \<times> db" where
  "react_to_greetings B E lang realm welcome_bot message_ids db =
     (case greetings_message E lang message_ids db of
        None \<Rightarrow> (Inl AssertionError, db)
      | Some found \<Rightarrow>
     (case get_emoji_data B (realm_id realm) ''wave'' db of
        Inl e \<Rightarrow> (Inl e, db)
      | Inr emoji \<Rightarrow>
          do_add_reaction B welcome_bot found ''wave''
            (emoji_code emoji) (reaction_type emoji) db))"

text \<open>
  The function under its decorator. Every exception leaves the function with the database
  as it is at that point.
\<close>

definition send_initial_realm_messages_body ::
  "'req backend \<Rightarrow> env \<Rightarrow> string \<Rightarrow> realm \<Rightarrow> db \<Rightarrow> (error + unit) \<times> db" where
  "send_initial_realm_messages_body B E lang realm db =
     (case get_system_bot B (WELCOME_BOT E) (realm_id realm) db of
        Inl e \<Rightarrow> (Inl e, db)
      | Inr welcome_bot \<Rightarrow>
     (case welcome_messages E lang of
        Inl e \<Rightarrow> (Inl e, db)
      | Inr declared \<Rightarrow>
     (case collect
             (map (\<lambda>message.
                     internal_prep_stream_message_by_name B realm welcome_bot
                       (channel_name message) (topic_name message)
                       (remove_single_newlines E (content message)) db)
                  declared) of
        Inl e \<Rightarrow> (Inl e, db)
      | Inr prepared \<Rightarrow>
     (case do_send_messages B prepared db of
        (Inl e, db1) \<Rightarrow> (Inl e, db1)
      | (Inr results, db1) \<Rightarrow>
     (let message_ids = map result_message_id results in
     (case onboarding_topics_first_message_ids (enumerate 0 declared) message_ids {} {} of
        Inl e \<Rightarrow> (Inl e, db1)
      | Inr first_ids \<Rightarrow>
          react_to_greetings B E lang realm welcome_bot message_ids
            (bulk_create (onboarding_user_messages realm first_ids message_ids) db1)))))))"

text \<open>
  Modelled from the spec: \<open>transaction.atomic\<close>, the decorator of the function, is
  Django's and is not among the sources. The spec has the whole operation be one atomic
  unit: what the function wrote is committed when it returns, and none of it is when it
  raises.
\<close>

definition atomic :: "(db \<Rightarrow> (error + 'a) \<times> db) \<Rightarrow> db \<Rightarrow> (error + 'a) \<times> db" where
  "atomic f db = (case f db of (Inl e, db') \<Rightarrow> (Inl e, db) | (Inr r, db') \<Rightarrow> (Inr r, db'))"

definition send_initial_realm_messages ::
  "'req backend \<Rightarrow> env \<Rightarrow> string \<Rightarrow> realm \<Rightarrow> db \<Rightarrow> (error + unit) \<times> db" where
  "send_initial_realm_messages B E lang realm =
     atomic (send_initial_realm_messages_body B E lang realm)"

section \<open>A reference configuration\<close>

text \<open>
  Modelled from the spec: \<open>remove_single_newlines\<close> of \<open>zerver.lib.message\<close> is not among
  the sources. The spec names it the whitespace-normalization utility for multi-line
  template strings. As its name says, it removes single newlines: the newlines at both ends
  are stripped, and a newline that stands alone (not next to another newline, and not in
  front of a digit, \<open>*\<close> or \<open>-\<close>, which start list items) becomes a space.
\<close>

definition strip_newlines :: "string \<Rightarrow> string" where
  "strip_newlines s =
     rev (dropWhile (\<lambda>c. c = CHR ''\<newline>'') (rev (dropWhile (\<lambda>c. c = CHR ''\<newline>'') s)))"

fun join_single_newlines :: "char option \<Rightarrow> string \<Rightarrow> string" where
  "join_single_newlines previous [] = []"
| "join_single_newlines previous (c # cs) =
     (if c = CHR ''\<newline>'' \<and> previous \<noteq> Some (CHR ''\<newline>'')
         \<and> (case cs of [] \<Rightarrow> True | d # r \<Rightarrow> d \<notin> set ''\<newline>0123456789*-'')
      then CHR '' '' # join_single_newlines (Some c) cs
      else c # join_single_newlines (Some c) cs)"

definition remove_single_newlines_impl :: "string \<Rightarrow> string" where
  "remove_single_newlines_impl body = join_single_newlines None (strip_newlines body)"

text \<open>
  An untranslated catalogue and the settings of a development server. The Unicode case
  mapping is not exercised by the ASCII inputs used below, nor is the general formatting:
  the templates of the module have plain fields only.
\<close>

definition example_env :: env where
  "example_env =
     \<lparr>gettext = (\<lambda>lang msgid. msgid),
      remove_single_newlines = remove_single_newlines_impl,
      unicode_lower = (\<lambda>s. s),
      general_format = (\<lambda>template kwargs. Inl ValueError),
      general_percent = (\<lambda>template args. Inl TypeError),
      WELCOME_BOT = ''welcome-bot@zulip.com'',
      INTERNAL_BOT_DOMAIN = ''zulip.com'',
      REALM_INTERNAL_BOTS =
        [\<lparr>var_name = ''REMINDER_BOT'', email_template = ''reminder-bot@%s'',
          name = ''Reminder Bot''\<rparr>],
      ORG_TYPES_id =
        (\<lambda>key. if key = ''education_nonprofit'' then 35
               else if key = ''education'' then 30 else 0),
      ZULIP_DISCUSSION_CHANNEL_NAME = (\<lambda>lang. ''Zulip''),
      ZULIP_SANDBOX_CHANNEL_NAME = (\<lambda>lang. ''sandbox''),
      DEFAULT_NOTIFICATION_STREAM_NAME = (\<lambda>lang. ''general'')\<rparr>"

text \<open>
  Modelled from the spec: the messaging substrate is not among the sources. The spec
  describes a bot-identity lookup by name and organization, message-send primitives that
  create one immutable message row per message sent, an emoji-metadata lookup and a
  reaction-add primitive. Message ids are handed out in increasing order.
\<close>

definition fresh_message_id :: "db \<Rightarrow> nat" where
  "fresh_message_id db = Suc (fold max (map msg_id (Message_objects db)) 0)"

definition reference_backend :: "message backend" where
  "reference_backend =
     \<lparr>get_system_bot =
        (\<lambda>bot_email rid db.
           case filter (\<lambda>u. email u = bot_email \<and> realm_id (user_realm u) = rid)
                       (UserProfile_objects db) of
             [] \<Rightarrow> Inl (External 0)
           | u # us \<Rightarrow> Inr u),
      internal_prep_stream_message_by_name =
        (\<lambda>realm sender channel topic body db.
           Inr \<lparr>msg_id = 0, msg_sender = sender, msg_recipient = Channel channel topic,
                msg_content = body\<rparr>),
      do_send_messages =
        (\<lambda>requests db.
           let rows = map (\<lambda>(i, m). m\<lparr>msg_id := fresh_message_id db + i\<rparr>)
                          (enumerate 0 requests)
           in (Inr (map (\<lambda>m. \<lparr>result_message_id = msg_id m\<rparr>) rows),
               db\<lparr>Message_objects := Message_objects db @ rows\<rparr>)),
      internal_send_private_message =
        (\<lambda>sender recipient body disable_external_notifications db.
           (Inr (Some (fresh_message_id db)),
            db\<lparr>Message_objects := Message_objects db @
                 [\<lparr>msg_id = fresh_message_id db, msg_sender = sender,
                   msg_recipient = Direct (user_id recipient), msg_content = body\<rparr>]\<rparr>)),
      get_emoji_data =
        (\<lambda>rid emoji db.
           if emoji = ''wave''
           then Inr \<lparr>emoji_code = ''1f44b'', reaction_type = ''unicode_emoji''\<rparr>
           else Inl (External 1)),
      do_add_reaction =
        (\<lambda>user message emoji code rtype db.
           (Inr (),
            db\<lparr>Reaction_objects := Reaction_objects db @
                 [\<lparr>reaction_user = user, reaction_message = message, emoji_name = emoji,
                   reaction_emoji_code = code, reaction_reaction_type = rtype\<rparr>]\<rparr>))\<rparr>"

text \<open>The same substrate with a reaction call that raises after the messages were sent.\<close>

definition failing_backend :: "message backend" where
  "failing_backend =
     reference_backend
       \<lparr>do_add_reaction := (\<lambda>user message emoji code rtype db. (Inl (External 2), db))\<rparr>"




definition example_realm :: realm where
  "example_realm =
     \<lparr>realm_id = 1, org_type = 10, demo_organization_scheduled_deletion_date = None\<rparr>"

definition example_bot :: user_profile where
  "example_bot =
     \<lparr>user_id = 1, email = ''welcome-bot@zulip.com'', user_realm = example_realm,
      is_realm_admin = False, is_realm_owner = False, default_language = ''en''\<rparr>"

definition example_user :: user_profile where
  "example_user =
     \<lparr>user_id = 2, email = ''iago@zulip.com'', user_realm = example_realm,
      is_realm_admin = True, is_realm_owner = False, default_language = ''en''\<rparr>"

text \<open>
  An education organization that is also a demo organization, with its owner and one of
  its members who is no administrator.
\<close>

definition example_school :: realm where
  "example_school =
     \<lparr>realm_id = 2, org_type = 30, demo_organization_scheduled_deletion_date = Some 30\<rparr>"

definition example_teacher :: user_profile where
  "example_teacher =
     \<lparr>user_id = 3, email = ''teacher@zulip.com'', user_realm = example_school,
      is_realm_admin = True, is_realm_owner = True, default_language = ''en''\<rparr>"

definition example_student :: user_profile where
  "example_student =
     \<lparr>user_id = 4, email = ''student@zulip.com'', user_realm = example_school,
      is_realm_admin = False, is_realm_owner = False, default_language = ''en''\<rparr>"

definition example_request :: send_message_request where
  "example_request =
     \<lparr>request_realm = example_realm,
      request_message =
        \<lparr>msg_id = 1, msg_sender = example_user, msg_recipient = Direct 1,
         msg_content = ''APPS''\<rparr>\<rparr>"

definition example_db :: db where
  "example_db =
     \<lparr>Realm_objects = [example_realm],
      UserProfile_objects = [example_bot, example_user],
      Message_objects = [],
      OnboardingUserMessage_objects = [],
      Reaction_objects = []\<rparr>"

definition empty_db :: db where
  "empty_db =
     \<lparr>Realm_objects = [], UserProfile_objects = [], Message_objects = [],
      OnboardingUserMessage_objects = [], Reaction_objects = []\<rparr>"

section \<open>Integrity of the database\<close>

text \<open>
  An organization has a bot when one of its accounts carries the bot's email. The
  constraints of the schema that the count comparison relies on: organization ids are
  unique, every account belongs to an organization of the table, and an organization has
  at most one account per email.
\<close>

definition has_bot :: "db \<Rightarrow> realm \<Rightarrow> string \<Rightarrow> bool" where
  "has_bot db r e \<longleftrightarrow>
     (\<exists>u \<in> set (UserProfile_objects db). email u = e \<and> realm_id (user_realm u) = realm_id r)"

definition consistent :: "db \<Rightarrow> bool" where
  "consistent db \<longleftrightarrow>
     distinct (map realm_id (Realm_objects db))
     \<and> (\<forall>u \<in> set (UserProfile_objects db).
           realm_id (user_realm u) \<in> realm_id ` set (Realm_objects db))
     \<and> distinct (map (\<lambda>u. (realm_id (user_realm u), email u)) (UserProfile_objects db))"

section \<open>Closed forms used in the proofs\<close>

text \<open>
  The initial direct message under an untranslated catalogue, by its three switches:
  education organization, administrator, owner of a demo organization.
\<close>

definition english_direct_message :: "bool \<Rightarrow> bool \<Rightarrow> bool \<Rightarrow> string" where
  "english_direct_message education admin demo =
     ''\<newline>Hello, and welcome to Zulip!'' @ waving_hand @ '' This is a direct message from me, Welcome Bot.\<newline>\<newline>''
     @ (if education
        then ''\<newline>If you are new to Zulip, check out our [Using Zulip for a class guide](/help/using-zulip-for-a-class)!\<newline>''
        else ''\<newline>If you are new to Zulip, check out our [Getting started guide](/help/getting-started-with-zulip)!\<newline>'')
     @ '' ''
     @ (if admin then
          (if education
           then ''\<newline>We also have a guide for [Setting up Zulip for a class](/help/setting-up-zulip-for-a-class).\<newline>''
           else ''\<newline>We also have a guide for [Setting up your organization](/help/getting-your-organization-started-with-zulip).\<newline>'')
        else [])
     @ ''\<newline>\<newline>''
     @ (if demo
        then ''\<newline>Note that this is a [demo organization](/help/demo-organizations) and\<newline>will be **automatically deleted** in 30 days.\<newline>''
        else [])
     @ ''\<newline>\<newline>I can also help you get set up! Just click anywhere on this message or press `r` to reply.\<newline>\<newline>Here are a few messages I understand: ''
     @ bot_commands False @ ''\<newline>''"

section \<open>Evaluating the templates\<close>

lemma format_channels_text:
  "str_format general ''\<newline>In Zulip, channels [determine who gets a message]({help_link}).\<newline>\<newline>[Browse and subscribe to channels]({settings_link}).\<newline>''
     [(''help_link'', ''/help/introduction-to-channels''), (''settings_link'', ''#channels/all'')]
   = Inr ''\<newline>In Zulip, channels [determine who gets a message](/help/introduction-to-channels).\<newline>\<newline>[Browse and subscribe to channels](#channels/all).\<newline>''"
  by (simp add: str_format_def field_special_def)

lemma format_help_text:
  "str_format general ''\<newline>Here are a few messages I understand: {bot_commands}\<newline>\<newline>Check out our [Getting started guide](/help/getting-started-with-zulip),\<newline>or browse the [Help center](/help/) to learn more!\<newline>''
     [(''bot_commands'', cmds)]
   = Inr (''\<newline>Here are a few messages I understand: '' @ cmds @ ''\<newline>\<newline>Check out our [Getting started guide](/help/getting-started-with-zulip),\<newline>or browse the [Help center](/help/) to learn more!\<newline>'')"
  by (simp add: str_format_def field_special_def)

lemma format_fallback_text:
  "str_format general (''\<newline>I'' @ rsquo @ ''m sorry, I did not understand your message. Please try\<newline>one of the following commands: {bot_commands}\<newline>'')
     [(''bot_commands'', cmds)]
   = Inr (''\<newline>I'' @ rsquo @ ''m sorry, I did not understand your message. Please try\<newline>one of the following commands: '' @ cmds @ ''\<newline>'')"
  by (simp add: str_format_def field_special_def rsquo_def)

lemma bot_commands_with_help:
  "bot_commands False = ''`apps`, `profile`, `theme`, `channels`, `topics`, `message formatting`, `keyboard shortcuts`, `help`.''"
  by (simp add: bot_commands_def)

lemma bot_commands_without_help:
  "bot_commands True = ''`apps`, `profile`, `theme`, `channels`, `topics`, `message formatting`, `keyboard shortcuts`.''"
  by (simp add: bot_commands_def)


section \<open>The responder\<close>

text \<open>
  C1. With an untranslated catalogue, \<open>select_welcome_bot_response\<close> returns for every
  input the canned response of the keyword group that the input is a member of, the
  fallback message listing the commands for every other input, and it returns a response
  for every input string.
\<close>

theorem select_welcome_bot_response_canned:
  assumes untranslated: "\<And>msgid. gettext E lang msgid = msgid"
  shows \<open>(s \<in> {''app'', ''apps''} \<longrightarrow> select_welcome_bot_response E lang s =
            Inr ''\<newline>You can [download](/apps/) the [mobile and desktop apps](/apps/).\<newline>Zulip also works great in a browser.\<newline>'')
       \<and> (s = ''profile'' \<longrightarrow> select_welcome_bot_response E lang s =
            Inr ''\<newline>Go to [Profile settings](#settings/profile) to add a [profile picture](/help/change-your-profile-picture)\<newline>and edit your [profile information](/help/edit-your-profile).\<newline>'')
       \<and> (s = ''theme'' \<longrightarrow> select_welcome_bot_response E lang s =
            Inr ''\<newline>Go to [Preferences](#settings/preferences) to [switch between the light and dark themes](/help/dark-theme),\<newline>[pick your favorite emoji theme](/help/emoji-and-emoticons#change-your-emoji-set),\<newline>[change your language](/help/change-your-language), and make other tweaks\<newline>to your Zulip experience.\<newline>'')
       \<and> (s \<in> {''stream'', ''streams'', ''channel'', ''channels''} \<longrightarrow> select_welcome_bot_response E lang s =
            Inr ''\<newline>In Zulip, channels [determine who gets a message](/help/introduction-to-channels).\<newline>\<newline>[Browse and subscribe to channels](#channels/all).\<newline>'')
       \<and> (s \<in> {''topic'', ''topics''} \<longrightarrow> select_welcome_bot_response E lang s =
            Inr ''\<newline>In Zulip, topics [tell you what a message is about](/help/introduction-to-topics).\<newline>They are light-weight subjects, very similar to the subject line of an email.\<newline>\<newline>Check out [Recent conversations](#recent) to see what's happening!\<newline>You can return to this conversation by clicking "Direct messages" in the upper left.\<newline>'')
       \<and> (s \<in> {''keyboard'', ''shortcuts'', ''keyboard shortcuts''} \<longrightarrow> select_welcome_bot_response E lang s =
            Inr ''\<newline>Zulip's [keyboard shortcuts](#keyboard-shortcuts) let you navigate the app\<newline>quickly and efficiently.\<newline>\<newline>Press `?` any time to see a [cheat sheet](#keyboard-shortcuts).\<newline>'')
       \<and> (s \<in> {''formatting'', ''message formatting''} \<longrightarrow> select_welcome_bot_response E lang s =
            Inr ''\<newline>Zulip uses [Markdown](/help/format-your-message-using-markdown),\<newline>an intuitive format for **bold**, *italics*, bulleted lists, and more.\<newline>Click [here](#message-formatting) for a cheat sheet.\<newline>\<newline>Check out our [messaging tips](/help/messaging-tips) to learn\<newline>about emoji reactions, code blocks and much more!\<newline>'')
       \<and> (s \<in> {''help'', ''?''} \<longrightarrow> select_welcome_bot_response E lang s =
            Inr ''\<newline>Here are a few messages I understand: `apps`, `profile`, `theme`, `channels`, `topics`, `message formatting`, `keyboard shortcuts`.\<newline>\<newline>Check out our [Getting started guide](/help/getting-started-with-zulip),\<newline>or browse the [Help center](/help/) to learn more!\<newline>'')
       \<and> (s \<notin> {''app'', ''apps'', ''profile'', ''theme'', ''stream'', ''streams'', ''channel'',
                 ''channels'', ''topic'', ''topics'', ''keyboard'', ''shortcuts'',
                 ''keyboard shortcuts'', ''formatting'', ''message formatting'', ''help'', ''?''} \<longrightarrow>
            select_welcome_bot_response E lang s =
            Inr (''\<newline>I'' @ rsquo @ ''m sorry, I did not understand your message. Please try\<newline>one of the following commands: `apps`, `profile`, `theme`, `channels`, `topics`, `message formatting`, `keyboard shortcuts`, `help`.\<newline>''))
       \<and> (\<exists>response. select_welcome_bot_response E lang s = Inr response)\<close>
  unfolding select_welcome_bot_response_def untranslated format_channels_text
    format_help_text format_fallback_text bot_commands_with_help bot_commands_without_help
  by auto

theorem select_welcome_bot_response_canned_witness:
  \<open>(\<forall>msgid. gettext example_env ''en'' msgid = msgid)
   \<and> select_welcome_bot_response example_env ''en'' ''apps'' =
     Inr ''\<newline>You can [download](/apps/) the [mobile and desktop apps](/apps/).\<newline>Zulip also works great in a browser.\<newline>''
   \<and> select_welcome_bot_response example_env ''en'' ''hello'' =
     Inr (''\<newline>I'' @ rsquo @ ''m sorry, I did not understand your message. Please try\<newline>one of the following commands: `apps`, `profile`, `theme`, `channels`, `topics`, `message formatting`, `keyboard shortcuts`, `help`.\<newline>'')\<close>
proof -
  have untranslated: "\<And>msgid. gettext example_env ''en'' msgid = msgid"
    by (simp add: example_env_def)
  show ?thesis
    using untranslated
      select_welcome_bot_response_canned [OF untranslated, of "''apps''"]
      select_welcome_bot_response_canned [OF untranslated, of "''hello''"]
    by simp
qed

section \<open>The initial direct message\<close>

lemma format_class_guide:
  "str_format general ''\<newline>If you are new to Zulip, check out our [Using Zulip for a class guide]({getting_started_url})!\<newline>''
     [(''getting_started_url'', ''/help/using-zulip-for-a-class'')]
   = Inr ''\<newline>If you are new to Zulip, check out our [Using Zulip for a class guide](/help/using-zulip-for-a-class)!\<newline>''"
  by (simp add: str_format_def field_special_def)

lemma format_getting_started:
  "str_format general ''\<newline>If you are new to Zulip, check out our [Getting started guide]({getting_started_url})!\<newline>''
     [(''getting_started_url'', ''/help/getting-started-with-zulip'')]
   = Inr ''\<newline>If you are new to Zulip, check out our [Getting started guide](/help/getting-started-with-zulip)!\<newline>''"
  by (simp add: str_format_def field_special_def)

lemma format_class_setup:
  "str_format general ''\<newline>We also have a guide for [Setting up Zulip for a class]({organization_setup_url}).\<newline>''
     [(''organization_setup_url'', ''/help/setting-up-zulip-for-a-class'')]
   = Inr ''\<newline>We also have a guide for [Setting up Zulip for a class](/help/setting-up-zulip-for-a-class).\<newline>''"
  by (simp add: str_format_def field_special_def)

lemma format_organization_setup:
  "str_format general ''\<newline>We also have a guide for [Setting up your organization]({organization_setup_url}).\<newline>''
     [(''organization_setup_url'', ''/help/getting-your-organization-started-with-zulip'')]
   = Inr ''\<newline>We also have a guide for [Setting up your organization](/help/getting-your-organization-started-with-zulip).\<newline>''"
  by (simp add: str_format_def field_special_def)

lemma format_demo_warning:
  "str_format general ''\<newline>Note that this is a [demo organization]({demo_organization_help_url}) and\<newline>will be **automatically deleted** in 30 days.\<newline>''
     [(''demo_organization_help_url'', ''/help/demo-organizations'')]
   = Inr ''\<newline>Note that this is a [demo organization](/help/demo-organizations) and\<newline>will be **automatically deleted** in 30 days.\<newline>''"
  by (simp add: str_format_def field_special_def)

lemma format_direct_message:
  "str_format general (''\<newline>Hello, and welcome to Zulip!'' @ waving_hand @ '' This is a direct message from me, Welcome Bot.\<newline>\<newline>{getting_started_text} {organization_setup_text}\<newline>\<newline>{demo_organization_text}\<newline>\<newline>I can also help you get set up! Just click anywhere on this message or press `r` to reply.\<newline>\<newline>Here are a few messages I understand: {bot_commands}\<newline>'')
     [(''getting_started_text'', g), (''organization_setup_text'', s),
      (''demo_organization_text'', d), (''bot_commands'', b)]
   = Inr (''\<newline>Hello, and welcome to Zulip!'' @ waving_hand @ '' This is a direct message from me, Welcome Bot.\<newline>\<newline>''
          @ g @ '' '' @ s @ ''\<newline>\<newline>'' @ d
          @ ''\<newline>\<newline>I can also help you get set up! Just click anywhere on this message or press `r` to reply.\<newline>\<newline>Here are a few messages I understand: ''
          @ b @ ''\<newline>'')"
  by (simp add: str_format_def field_special_def waving_hand_def)

lemma Inr_if: "(if c then Inr a else Inr b) = (Inr (if c then a else b) :: error + string)"
  by simp

lemma initial_direct_message_text:
  assumes untranslated: "\<And>msgid. gettext E (default_language user) msgid = msgid"
  shows "initial_direct_message_content E user =
     Inr (english_direct_message
            (org_type (user_realm user) \<in>
               {ORG_TYPES_id E ''education_nonprofit'', ORG_TYPES_id E ''education''})
            (is_realm_admin user)
            (is_realm_owner user
               \<and> demo_organization_scheduled_deletion_date (user_realm user) \<noteq> None))"
proof -
  have set2: "\<And>x a b. (x \<in> set [a, b]) = (x \<in> {a, b :: nat})" by simp
  show ?thesis
    unfolding initial_direct_message_content_def english_direct_message_def untranslated Let_def
      format_class_guide format_getting_started format_class_setup format_organization_setup
      format_demo_warning set2
    by (simp only: Inr_if sum.case format_direct_message if_cancel cong: if_cong)
qed

lemma sublist_weak_cong: "n = n' \<Longrightarrow> sublist n ys = sublist n' ys" by simp
lemma prefix_weak_cong: "n = n' \<Longrightarrow> prefix n ys = prefix n' ys" by simp
lemma append_weak_cong: "xs = xs' \<Longrightarrow> xs @ ys = xs' @ ys" by simp
lemma prefix_Cons_if: "prefix (x # xs) (y # ys) = (if x = y then prefix xs ys else False)" by simp
lemma sublist_Cons_if:
  "sublist (x # xs) (y # ys) = (if prefix (x # xs) (y # ys) then True else sublist (x # xs) ys)"
  by (simp add: sublist_code(3) del: Cons_prefix_Cons)

lemmas text_eval = english_direct_message_def if_True if_False append.simps waving_hand_def
  bot_commands_with_help
lemmas sublist_eval = sublist_Cons_if prefix_Cons_if sublist_Nil_left sublist_Cons_Nil Nil_prefix prefix_Nil
  char.inject simp_thms list.simps if_True if_False

lemma contains_class_guide:
  "sublist ''[Using Zulip for a class guide](/help/using-zulip-for-a-class)''
     (english_direct_message education admin demo) \<longleftrightarrow> education"
  apply (cases education; cases admin; cases demo)
  apply (simp_all only: text_eval cong: append_weak_cong)
  apply (simp_all only: sublist_eval cong: if_weak_cong sublist_weak_cong prefix_weak_cong)
  done

lemma contains_getting_started:
  "sublist ''[Getting started guide](/help/getting-started-with-zulip)''
     (english_direct_message education admin demo) \<longleftrightarrow> \<not> education"
  apply (cases education; cases admin; cases demo)
  apply (simp_all only: text_eval cong: append_weak_cong)
  apply (simp_all only: sublist_eval cong: if_weak_cong sublist_weak_cong prefix_weak_cong)
  done

lemma contains_class_setup:
  "sublist ''[Setting up Zulip for a class](/help/setting-up-zulip-for-a-class)''
     (english_direct_message education admin demo) \<longleftrightarrow> education \<and> admin"
  apply (cases education; cases admin; cases demo)
  apply (simp_all only: text_eval cong: append_weak_cong)
  apply (simp_all only: sublist_eval cong: if_weak_cong sublist_weak_cong prefix_weak_cong)
  done

lemma contains_organization_setup:
  "sublist ''[Setting up your organization](/help/getting-your-organization-started-with-zulip)''
     (english_direct_message education admin demo) \<longleftrightarrow> \<not> education \<and> admin"
  apply (cases education; cases admin; cases demo)
  apply (simp_all only: text_eval cong: append_weak_cong)
  apply (simp_all only: sublist_eval cong: if_weak_cong sublist_weak_cong prefix_weak_cong)
  done

lemma contains_setup_paragraph:
  "sublist ''We also have a guide for''
     (english_direct_message education admin demo) \<longleftrightarrow> admin"
  apply (cases education; cases admin; cases demo)
  apply (simp_all only: text_eval cong: append_weak_cong)
  apply (simp_all only: sublist_eval cong: if_weak_cong sublist_weak_cong prefix_weak_cong)
  done

lemma contains_demo_warning:
  "sublist ''Note that this is a [demo organization](/help/demo-organizations) and\<newline>will be **automatically deleted** in 30 days.''
     (english_direct_message education admin demo) \<longleftrightarrow> demo"
  apply (cases education; cases admin; cases demo)
  apply (simp_all only: text_eval cong: append_weak_cong)
  apply (simp_all only: sublist_eval cong: if_weak_cong sublist_weak_cong prefix_weak_cong)
  done

lemma contains_class_setup_url:
  "sublist ''/help/setting-up-zulip-for-a-class''
     (english_direct_message education admin demo) \<longleftrightarrow> education \<and> admin"
  apply (cases education; cases admin; cases demo)
  apply (simp_all only: text_eval cong: append_weak_cong)
  apply (simp_all only: sublist_eval cong: if_weak_cong sublist_weak_cong prefix_weak_cong)
  done

text \<open>
  C3. With an untranslated catalogue for the user's language, the content that
  \<open>send_initial_direct_message\<close> builds and hands to the sending call contains the class
  guide link exactly when the organization's type is \<open>education\<close> or
  \<open>education_nonprofit\<close>, and the general getting-started link exactly otherwise; it
  contains the organization set-up paragraph exactly when the user is a realm
  administrator, and that paragraph links to the class set-up guide in an education
  organization and to the general set-up guide otherwise; and it contains the
  demo-deletion warning exactly when the user is a realm owner and the scheduled deletion
  date is not \<open>None\<close>. The two education-specific links therefore occur together only for
  an administrator: a member of an education organization who is no administrator gets
  the class guide link without the class set-up link.
\<close>

theorem initial_direct_message_personalised:
  assumes untranslated: "\<And>msgid. gettext E (default_language user) msgid = msgid"
  shows "\<exists>content.
       initial_direct_message_content E user = Inr content
     \<and> (sublist ''[Using Zulip for a class guide](/help/using-zulip-for-a-class)'' content \<longleftrightarrow>
          org_type (user_realm user) \<in>
            {ORG_TYPES_id E ''education_nonprofit'', ORG_TYPES_id E ''education''})
     \<and> (sublist ''[Getting started guide](/help/getting-started-with-zulip)'' content \<longleftrightarrow>
          \<not> org_type (user_realm user) \<in>
            {ORG_TYPES_id E ''education_nonprofit'', ORG_TYPES_id E ''education''})
     \<and> (sublist ''[Setting up Zulip for a class](/help/setting-up-zulip-for-a-class)'' content \<longleftrightarrow>
          org_type (user_realm user) \<in>
            {ORG_TYPES_id E ''education_nonprofit'', ORG_TYPES_id E ''education''}
          \<and> is_realm_admin user)
     \<and> (sublist ''[Setting up your organization](/help/getting-your-organization-started-with-zulip)'' content \<longleftrightarrow>
          \<not> org_type (user_realm user) \<in>
            {ORG_TYPES_id E ''education_nonprofit'', ORG_TYPES_id E ''education''}
          \<and> is_realm_admin user)
     \<and> (sublist ''We also have a guide for'' content \<longleftrightarrow> is_realm_admin user)
     \<and> (sublist ''Note that this is a [demo organization](/help/demo-organizations) and\<newline>will be **automatically deleted** in 30 days.'' content \<longleftrightarrow>
          is_realm_owner user
          \<and> demo_organization_scheduled_deletion_date (user_realm user) \<noteq> None)
     \<and> (\<forall>B db welcome_bot.
          get_system_bot B (WELCOME_BOT E) (realm_id (user_realm user)) db = Inr welcome_bot \<longrightarrow>
          send_initial_direct_message B E user db =
            (case internal_send_private_message B welcome_bot user
                    (remove_single_newlines E content) True db of
               (Inl e, db') \<Rightarrow> (Inl e, db')
             | (Inr None, db') \<Rightarrow> (Inl AssertionError, db')
             | (Inr (Some message_id), db') \<Rightarrow> (Inr message_id, db')))"
proof (intro exI conjI)
  show "initial_direct_message_content E user =
     Inr (english_direct_message
            (org_type (user_realm user) \<in>
               {ORG_TYPES_id E ''education_nonprofit'', ORG_TYPES_id E ''education''})
            (is_realm_admin user)
            (is_realm_owner user
               \<and> demo_organization_scheduled_deletion_date (user_realm user) \<noteq> None))"
    (is "_ = Inr ?text")
    by (rule initial_direct_message_text [OF untranslated])
  show "\<forall>B db welcome_bot.
          get_system_bot B (WELCOME_BOT E) (realm_id (user_realm user)) db = Inr welcome_bot \<longrightarrow>
          send_initial_direct_message B E user db =
            (case internal_send_private_message B welcome_bot user
                    (remove_single_newlines E ?text) True db of
               (Inl e, db') \<Rightarrow> (Inl e, db')
             | (Inr None, db') \<Rightarrow> (Inl AssertionError, db')
             | (Inr (Some message_id), db') \<Rightarrow> (Inr message_id, db'))"
    by (simp add: send_initial_direct_message_def initial_direct_message_text [OF untranslated])
qed (simp_all only: contains_class_guide contains_getting_started contains_class_setup
       contains_organization_setup contains_setup_paragraph contains_demo_warning simp_thms)

theorem initial_direct_message_personalised_witness:
  "(\<forall>msgid. gettext example_env (default_language example_teacher) msgid = msgid)
   \<and> (\<exists>content.
         initial_direct_message_content example_env example_teacher = Inr content
       \<and> sublist ''[Using Zulip for a class guide](/help/using-zulip-for-a-class)'' content
       \<and> \<not> sublist ''[Getting started guide](/help/getting-started-with-zulip)'' content
       \<and> sublist ''[Setting up Zulip for a class](/help/setting-up-zulip-for-a-class)'' content
       \<and> \<not> sublist ''[Setting up your organization](/help/getting-your-organization-started-with-zulip)'' content
       \<and> sublist ''We also have a guide for'' content
       \<and> sublist ''Note that this is a [demo organization](/help/demo-organizations) and\<newline>will be **automatically deleted** in 30 days.'' content)
   \<and> (\<forall>msgid. gettext example_env (default_language example_user) msgid = msgid)
   \<and> (\<exists>content.
         initial_direct_message_content example_env example_user = Inr content
       \<and> \<not> sublist ''[Using Zulip for a class guide](/help/using-zulip-for-a-class)'' content
       \<and> sublist ''[Getting started guide](/help/getting-started-with-zulip)'' content
       \<and> \<not> sublist ''[Setting up Zulip for a class](/help/setting-up-zulip-for-a-class)'' content
       \<and> sublist ''[Setting up your organization](/help/getting-your-organization-started-with-zulip)'' content
       \<and> sublist ''We also have a guide for'' content
       \<and> \<not> sublist ''Note that this is a [demo organization](/help/demo-organizations) and\<newline>will be **automatically deleted** in 30 days.'' content)
   \<and> (\<forall>msgid. gettext example_env (default_language example_student) msgid = msgid)
   \<and> (\<exists>content.
         initial_direct_message_content example_env example_student = Inr content
       \<and> sublist ''[Using Zulip for a class guide](/help/using-zulip-for-a-class)'' content
       \<and> \<not> sublist ''[Getting started guide](/help/getting-started-with-zulip)'' content
       \<and> \<not> sublist ''[Setting up Zulip for a class](/help/setting-up-zulip-for-a-class)'' content
       \<and> \<not> sublist ''[Setting up your organization](/help/getting-your-organization-started-with-zulip)'' content
       \<and> \<not> sublist ''We also have a guide for'' content
       \<and> \<not> sublist ''Note that this is a [demo organization](/help/demo-organizations) and\<newline>will be **automatically deleted** in 30 days.'' content)"
proof -
  have untranslated_example_teacher: "\<And>msgid. gettext example_env (default_language example_teacher) msgid = msgid"
    by (simp add: example_env_def)
  have switches_example_teacher:
    "(org_type (user_realm example_teacher) \<in>
            {ORG_TYPES_id example_env ''education_nonprofit'', ORG_TYPES_id example_env ''education''}) = True"
    "is_realm_admin example_teacher = True"
    "(is_realm_owner example_teacher
        \<and> demo_organization_scheduled_deletion_date (user_realm example_teacher) \<noteq> None) = True"
    by (simp_all add: example_teacher_def example_school_def example_realm_def example_env_def)
  from initial_direct_message_personalised [OF untranslated_example_teacher]
  obtain content where
    built: "initial_direct_message_content example_env example_teacher = Inr content" and
    class_guide: "sublist ''[Using Zulip for a class guide](/help/using-zulip-for-a-class)'' content \<longleftrightarrow>
          org_type (user_realm example_teacher) \<in>
            {ORG_TYPES_id example_env ''education_nonprofit'', ORG_TYPES_id example_env ''education''}" and
    getting_started: "sublist ''[Getting started guide](/help/getting-started-with-zulip)'' content \<longleftrightarrow>
          \<not> org_type (user_realm example_teacher) \<in>
            {ORG_TYPES_id example_env ''education_nonprofit'', ORG_TYPES_id example_env ''education''}" and
    class_setup: "sublist ''[Setting up Zulip for a class](/help/setting-up-zulip-for-a-class)'' content \<longleftrightarrow>
          org_type (user_realm example_teacher) \<in>
            {ORG_TYPES_id example_env ''education_nonprofit'', ORG_TYPES_id example_env ''education''}
          \<and> is_realm_admin example_teacher" and
    organization_setup: "sublist ''[Setting up your organization](/help/getting-your-organization-started-with-zulip)'' content \<longleftrightarrow>
          \<not> org_type (user_realm example_teacher) \<in>
            {ORG_TYPES_id example_env ''education_nonprofit'', ORG_TYPES_id example_env ''education''}
          \<and> is_realm_admin example_teacher" and
    setup_paragraph: "sublist ''We also have a guide for'' content \<longleftrightarrow> is_realm_admin example_teacher" and
    demo_warning: "sublist ''Note that this is a [demo organization](/help/demo-organizations) and\<newline>will be **automatically deleted** in 30 days.'' content \<longleftrightarrow>
          is_realm_owner example_teacher
          \<and> demo_organization_scheduled_deletion_date (user_realm example_teacher) \<noteq> None"
    by (elim exE conjE)
  have shown_example_teacher: "\<exists>content.
         initial_direct_message_content example_env example_teacher = Inr content
       \<and> sublist ''[Using Zulip for a class guide](/help/using-zulip-for-a-class)'' content
       \<and> \<not> sublist ''[Getting started guide](/help/getting-started-with-zulip)'' content
       \<and> sublist ''[Setting up Zulip for a class](/help/setting-up-zulip-for-a-class)'' content
       \<and> \<not> sublist ''[Setting up your organization](/help/getting-your-organization-started-with-zulip)'' content
       \<and> sublist ''We also have a guide for'' content
       \<and> sublist ''Note that this is a [demo organization](/help/demo-organizations) and\<newline>will be **automatically deleted** in 30 days.'' content"
    using built class_guide getting_started class_setup organization_setup setup_paragraph demo_warning
    unfolding switches_example_teacher by (intro exI [of _ content]) (simp only: simp_thms)

  have untranslated_example_user: "\<And>msgid. gettext example_env (default_language example_user) msgid = msgid"
    by (simp add: example_env_def)
  have switches_example_user:
    "(org_type (user_realm example_user) \<in>
            {ORG_TYPES_id example_env ''education_nonprofit'', ORG_TYPES_id example_env ''education''}) = False"
    "is_realm_admin example_user = True"
    "(is_realm_owner example_user
        \<and> demo_organization_scheduled_deletion_date (user_realm example_user) \<noteq> None) = False"
    by (simp_all add: example_user_def example_school_def example_realm_def example_env_def)
  from initial_direct_message_personalised [OF untranslated_example_user]
  obtain content where
    built: "initial_direct_message_content example_env example_user = Inr content" and
    class_guide: "sublist ''[Using Zulip for a class guide](/help/using-zulip-for-a-class)'' content \<longleftrightarrow>
          org_type (user_realm example_user) \<in>
            {ORG_TYPES_id example_env ''education_nonprofit'', ORG_TYPES_id example_env ''education''}" and
    getting_started: "sublist ''[Getting started guide](/help/getting-started-with-zulip)'' content \<longleftrightarrow>
          \<not> org_type (user_realm example_user) \<in>
            {ORG_TYPES_id example_env ''education_nonprofit'', ORG_TYPES_id example_env ''education''}" and
    class_setup: "sublist ''[Setting up Zulip for a class](/help/setting-up-zulip-for-a-class)'' content \<longleftrightarrow>
          org_type (user_realm example_user) \<in>
            {ORG_TYPES_id example_env ''education_nonprofit'', ORG_TYPES_id example_env ''education''}
          \<and> is_realm_admin example_user" and
    organization_setup: "sublist ''[Setting up your organization](/help/getting-your-organization-started-with-zulip)'' content \<longleftrightarrow>
          \<not> org_type (user_realm example_user) \<in>
            {ORG_TYPES_id example_env ''education_nonprofit'', ORG_TYPES_id example_env ''education''}
          \<and> is_realm_admin example_user" and
    setup_paragraph: "sublist ''We also have a guide for'' content \<longleftrightarrow> is_realm_admin example_user" and
    demo_warning: "sublist ''Note that this is a [demo organization](/help/demo-organizations) and\<newline>will be **automatically deleted** in 30 days.'' content \<longleftrightarrow>
          is_realm_owner example_user
          \<and> demo_organization_scheduled_deletion_date (user_realm example_user) \<noteq> None"
    by (elim exE conjE)
  have shown_example_user: "\<exists>content.
         initial_direct_message_content example_env example_user = Inr content
       \<and> \<not> sublist ''[Using Zulip for a class guide](/help/using-zulip-for-a-class)'' content
       \<and> sublist ''[Getting started guide](/help/getting-started-with-zulip)'' content
       \<and> \<not> sublist ''[Setting up Zulip for a class](/help/setting-up-zulip-for-a-class)'' content
       \<and> sublist ''[Setting up your organization](/help/getting-your-organization-started-with-zulip)'' content
       \<and> sublist ''We also have a guide for'' content
       \<and> \<not> sublist ''Note that this is a [demo organization](/help/demo-organizations) and\<newline>will be **automatically deleted** in 30 days.'' content"
    using built class_guide getting_started class_setup organization_setup setup_paragraph demo_warning
    unfolding switches_example_user by (intro exI [of _ content]) (simp only: simp_thms)

  have untranslated_example_student: "\<And>msgid. gettext example_env (default_language example_student) msgid = msgid"
    by (simp add: example_env_def)
  have switches_example_student:
    "(org_type (user_realm example_student) \<in>
            {ORG_TYPES_id example_env ''education_nonprofit'', ORG_TYPES_id example_env ''education''}) = True"
    "is_realm_admin example_student = False"
    "(is_realm_owner example_student
        \<and> demo_organization_scheduled_deletion_date (user_realm example_student) \<noteq> None) = False"
    by (simp_all add: example_student_def example_school_def example_realm_def example_env_def)
  from initial_direct_message_personalised [OF untranslated_example_student]
  obtain content where
    built: "initial_direct_message_content example_env example_student = Inr content" and
    class_guide: "sublist ''[Using Zulip for a class guide](/help/using-zulip-for-a-class)'' content \<longleftrightarrow>
          org_type (user_realm example_student) \<in>
            {ORG_TYPES_id example_env ''education_nonprofit'', ORG_TYPES_id example_env ''education''}" and
    getting_started: "sublist ''[Getting started guide](/help/getting-started-with-zulip)'' content \<longleftrightarrow>
          \<not> org_type (user_realm example_student) \<in>
            {ORG_TYPES_id example_env ''education_nonprofit'', ORG_TYPES_id example_env ''education''}" and
    class_setup: "sublist ''[Setting up Zulip for a class](/help/setting-up-zulip-for-a-class)'' content \<longleftrightarrow>
          org_type (user_realm example_student) \<in>
            {ORG_TYPES_id example_env ''education_nonprofit'', ORG_TYPES_id example_env ''education''}
          \<and> is_realm_admin example_student" and
    organization_setup: "sublist ''[Setting up your organization](/help/getting-your-organization-started-with-zulip)'' content \<longleftrightarrow>
          \<not> org_type (user_realm example_student) \<in>
            {ORG_TYPES_id example_env ''education_nonprofit'', ORG_TYPES_id example_env ''education''}
          \<and> is_realm_admin example_student" and
    setup_paragraph: "sublist ''We also have a guide for'' content \<longleftrightarrow> is_realm_admin example_student" and
    demo_warning: "sublist ''Note that this is a [demo organization](/help/demo-organizations) and\<newline>will be **automatically deleted** in 30 days.'' content \<longleftrightarrow>
          is_realm_owner example_student
          \<and> demo_organization_scheduled_deletion_date (user_realm example_student) \<noteq> None"
    by (elim exE conjE)
  have shown_example_student: "\<exists>content.
         initial_direct_message_content example_env example_student = Inr content
       \<and> sublist ''[Using Zulip for a class guide](/help/using-zulip-for-a-class)'' content
       \<and> \<not> sublist ''[Getting started guide](/help/getting-started-with-zulip)'' content
       \<and> \<not> sublist ''[Setting up Zulip for a class](/help/setting-up-zulip-for-a-class)'' content
       \<and> \<not> sublist ''[Setting up your organization](/help/getting-your-organization-started-with-zulip)'' content
       \<and> \<not> sublist ''We also have a guide for'' content
       \<and> \<not> sublist ''Note that this is a [demo organization](/help/demo-organizations) and\<newline>will be **automatically deleted** in 30 days.'' content"
    using built class_guide getting_started class_setup organization_setup setup_paragraph demo_warning
    unfolding switches_example_student by (intro exI [of _ content]) (simp only: simp_thms)
  show ?thesis
    using untranslated_example_teacher shown_example_teacher untranslated_example_user
      shown_example_user untranslated_example_student shown_example_student
    by (intro conjI allI)
qed

theorem initial_direct_message_personalised_counterexample:
  "org_type (user_realm example_student) = ORG_TYPES_id example_env ''education''
   \<and> \<not> is_realm_admin example_student
   \<and> (case initial_direct_message_content example_env example_student of
         Inl e \<Rightarrow> False
       | Inr direct_message \<Rightarrow>
           sublist ''[Using Zulip for a class guide](/help/using-zulip-for-a-class)'' direct_message
         \<and> \<not> sublist ''[Setting up Zulip for a class](/help/setting-up-zulip-for-a-class)'' direct_message
         \<and> \<not> sublist ''/help/setting-up-zulip-for-a-class'' direct_message)"
proof -
  have untranslated: "\<And>msgid. gettext example_env (default_language example_student) msgid = msgid"
    by (simp add: example_env_def)
  have switches:
    "org_type (user_realm example_student) = ORG_TYPES_id example_env ''education''"
    "\<not> is_realm_admin example_student"
    "(org_type (user_realm example_student) \<in>
        {ORG_TYPES_id example_env ''education_nonprofit'', ORG_TYPES_id example_env ''education''})
       = True"
    "is_realm_admin example_student = False"
    "(is_realm_owner example_student
        \<and> demo_organization_scheduled_deletion_date (user_realm example_student) \<noteq> None) = False"
    by (simp_all add: example_student_def example_school_def example_env_def)
  have built: "initial_direct_message_content example_env example_student
      = Inr (english_direct_message True False False)"
    using initial_direct_message_text [OF untranslated] unfolding switches(3-5) .
  show ?thesis
    unfolding built
    by (simp only: sum.case switches(1,2) contains_class_guide contains_class_setup
          contains_class_setup_url simp_thms)
qed

section \<open>The command list\<close>

lemma select_help:
  assumes untranslated: "\<And>msgid. gettext E lang msgid = msgid"
    and keyword: "s \<in> {''help'', ''?''}"
  shows "select_welcome_bot_response E lang s =
     Inr (''\<newline>Here are a few messages I understand: '' @ bot_commands True @ ''\<newline>\<newline>Check out our [Getting started guide](/help/getting-started-with-zulip),\<newline>or browse the [Help center](/help/) to learn more!\<newline>'')"
proof -
  have branch:
    "s \<notin> set [''app'', ''apps'']" "s \<noteq> ''profile''" "s \<noteq> ''theme''"
    "s \<notin> set [''stream'', ''streams'', ''channel'', ''channels'']"
    "s \<notin> set [''topic'', ''topics'']"
    "s \<notin> set [''keyboard'', ''shortcuts'', ''keyboard shortcuts'']"
    "s \<notin> set [''formatting'', ''message formatting'']"
    "s \<in> set [''help'', ''?'']"
    using keyword by auto
  show ?thesis
    unfolding select_welcome_bot_response_def untranslated format_help_text
    by (simp only: branch if_False if_True)
qed

lemma select_fallback:
  assumes untranslated: "\<And>msgid. gettext E lang msgid = msgid"
    and other: "s \<notin> {''app'', ''apps'', ''profile'', ''theme'', ''stream'', ''streams'', ''channel'',
                 ''channels'', ''topic'', ''topics'', ''keyboard'', ''shortcuts'',
                 ''keyboard shortcuts'', ''formatting'', ''message formatting'', ''help'', ''?''}"
  shows "select_welcome_bot_response E lang s =
     Inr (''\<newline>I'' @ rsquo @ ''m sorry, I did not understand your message. Please try\<newline>one of the following commands: '' @ bot_commands False @ ''\<newline>'')"
proof -
  have branch:
    "s \<notin> set [''app'', ''apps'']" "s \<noteq> ''profile''" "s \<noteq> ''theme''"
    "s \<notin> set [''stream'', ''streams'', ''channel'', ''channels'']"
    "s \<notin> set [''topic'', ''topics'']"
    "s \<notin> set [''keyboard'', ''shortcuts'', ''keyboard shortcuts'']"
    "s \<notin> set [''formatting'', ''message formatting'']"
    "s \<notin> set [''help'', ''?'']"
    using other by auto
  show ?thesis
    unfolding select_welcome_bot_response_def untranslated format_fallback_text
    by (simp only: branch if_False)
qed

lemma ex_append_step:
  assumes "\<exists>b. ys = b @ r" shows "\<exists>b. xs @ ys = b @ r"
proof -
  from assms obtain b where "ys = b @ r" ..
  then have "xs @ ys = (xs @ b) @ r" by simp
  then show ?thesis ..
qed

lemma ex_append_last: "\<exists>b. (z @ h) @ r = b @ h @ r"
  by simp

lemma direct_message_tail_split: "''\<newline>\<newline>I can also help you get set up! Just click anywhere on this message or press `r` to reply.\<newline>\<newline>Here are a few messages I understand: ''
     = ''\<newline>\<newline>I can also help you get set up! Just click anywhere on this message or press `r` to reply.\<newline>\<newline>'' @ ''Here are a few messages I understand: ''"
    by (simp only: append.simps)

lemma direct_message_ends_with_commands:
  "\<exists>before. english_direct_message education admin demo =
      before @ ''Here are a few messages I understand: '' @ bot_commands False @ ''\<newline>''"
    unfolding english_direct_message_def
    apply (subst direct_message_tail_split)
    apply (rule ex_append_step)
    apply (rule ex_append_step)
    apply (rule ex_append_step)
    apply (rule ex_append_step)
    apply (rule ex_append_step)
    apply (rule ex_append_step)
    apply (rule ex_append_step)
    apply (rule ex_append_step)
    apply (rule ex_append_last)
    done

text \<open>
  C10. \<open>bot_commands()\<close> is the comma-separated list of the seven backticked commands
  followed by \<open>`help`\<close> and a period, and \<open>bot_commands(no_help_command=True)\<close> is the
  same list without \<open>`help`\<close>. With an untranslated catalogue, the reply to \<open>help\<close> or
  \<open>?\<close> lists the commands without \<open>help\<close>, while the fallback reply and the initial
  direct message list them with \<open>help\<close>.
\<close>

theorem bot_commands_help_entry:
  assumes responder: "\<And>msgid. gettext E lang msgid = msgid"
    and composer: "\<And>msgid. gettext E (default_language user) msgid = msgid"
  shows "bot_commands False = ''`apps`, `profile`, `theme`, `channels`, `topics`, `message formatting`, `keyboard shortcuts`, `help`.''
     \<and> bot_commands True = ''`apps`, `profile`, `theme`, `channels`, `topics`, `message formatting`, `keyboard shortcuts`.''
     \<and> (s \<in> {''help'', ''?''} \<longrightarrow>
          select_welcome_bot_response E lang s =
            Inr (''\<newline>Here are a few messages I understand: '' @ bot_commands True @ ''\<newline>\<newline>Check out our [Getting started guide](/help/getting-started-with-zulip),\<newline>or browse the [Help center](/help/) to learn more!\<newline>''))
     \<and> (s \<notin> {''app'', ''apps'', ''profile'', ''theme'', ''stream'', ''streams'', ''channel'',
                 ''channels'', ''topic'', ''topics'', ''keyboard'', ''shortcuts'',
                 ''keyboard shortcuts'', ''formatting'', ''message formatting'', ''help'', ''?''} \<longrightarrow>
          select_welcome_bot_response E lang s =
            Inr (''\<newline>I'' @ rsquo @ ''m sorry, I did not understand your message. Please try\<newline>one of the following commands: '' @ bot_commands False @ ''\<newline>''))
     \<and> (\<exists>before. initial_direct_message_content E user =
            Inr (before @ ''Here are a few messages I understand: '' @ bot_commands False @ ''\<newline>''))"
proof -
  from direct_message_ends_with_commands obtain before where
    "english_direct_message
       (org_type (user_realm user) \<in>
          {ORG_TYPES_id E ''education_nonprofit'', ORG_TYPES_id E ''education''})
       (is_realm_admin user)
       (is_realm_owner user
          \<and> demo_organization_scheduled_deletion_date (user_realm user) \<noteq> None)
     = before @ ''Here are a few messages I understand: '' @ bot_commands False @ ''\<newline>''"
    ..
  then have built: "initial_direct_message_content E user =
      Inr (before @ ''Here are a few messages I understand: '' @ bot_commands False @ ''\<newline>'')"
    by (simp only: initial_direct_message_text [OF composer])
  have composed: "\<exists>before. initial_direct_message_content E user =
      Inr (before @ ''Here are a few messages I understand: '' @ bot_commands False @ ''\<newline>'')"
    by (rule exI) (rule built)
  show ?thesis
    apply (intro conjI impI)
        apply (rule bot_commands_with_help)
       apply (rule bot_commands_without_help)
      apply (erule select_help [OF responder])
     apply (erule select_fallback [OF responder])
    apply (rule composed)
    done
qed

theorem bot_commands_help_entry_witness:
  "(\<forall>msgid. gettext example_env ''en'' msgid = msgid)
   \<and> (\<forall>msgid. gettext example_env (default_language example_user) msgid = msgid)
   \<and> select_welcome_bot_response example_env ''en'' ''help'' =
        Inr (''\<newline>Here are a few messages I understand: '' @ bot_commands True @ ''\<newline>\<newline>Check out our [Getting started guide](/help/getting-started-with-zulip),\<newline>or browse the [Help center](/help/) to learn more!\<newline>'')
   \<and> select_welcome_bot_response example_env ''en'' ''hi there'' =
        Inr (''\<newline>I'' @ rsquo @ ''m sorry, I did not understand your message. Please try\<newline>one of the following commands: '' @ bot_commands False @ ''\<newline>'')"
proof -
  have responder: "\<And>msgid. gettext example_env ''en'' msgid = msgid"
    by (simp add: example_env_def)
  have composer: "\<And>msgid. gettext example_env (default_language example_user) msgid = msgid"
    by (simp add: example_env_def)
  note at_help = bot_commands_help_entry [OF responder composer, of "''help''"]
  note at_other = bot_commands_help_entry [OF responder composer, of "''hi there''"]
  have reply_help: "select_welcome_bot_response example_env ''en'' ''help'' =
        Inr (''\<newline>Here are a few messages I understand: '' @ bot_commands True @ ''\<newline>\<newline>Check out our [Getting started guide](/help/getting-started-with-zulip),\<newline>or browse the [Help center](/help/) to learn more!\<newline>'')"
    by (rule at_help [THEN conjunct2, THEN conjunct2, THEN conjunct1, THEN mp]) simp
  have reply_other: "select_welcome_bot_response example_env ''en'' ''hi there'' =
        Inr (''\<newline>I'' @ rsquo @ ''m sorry, I did not understand your message. Please try\<newline>one of the following commands: '' @ bot_commands False @ ''\<newline>'')"
    by (rule at_other [THEN conjunct2, THEN conjunct2, THEN conjunct2, THEN conjunct1, THEN mp]) simp
  show ?thesis
    by (intro conjI allI) (rule responder composer reply_help reply_other)+
qed

section \<open>The initial messages of a new organization\<close>

lemma collect_map_nth:
  "collect (map f xs) = Inr ys \<Longrightarrow>
     length ys = length xs \<and> (\<forall>i < length xs. f (xs ! i) = Inr (ys ! i))"
proof (induction xs arbitrary: ys)
  case Nil
  then show ?case by simp
next
  case (Cons x xs)
  from Cons.prems obtain y ys' where
    y: "f x = Inr y" and ys': "collect (map f xs) = Inr ys'" and ys: "ys = y # ys'"
    by (auto split: sum.splits)
  from Cons.IH [OF ys'] have
    len: "length ys' = length xs" and nth: "\<forall>i < length xs. f (xs ! i) = Inr (ys' ! i)"
    by simp_all
  show ?case
  proof (intro conjI allI impI)
    show "length ys = length (x # xs)" using len ys by simp
  next
    fix i assume "i < length (x # xs)"
    then show "f ((x # xs) ! i) = Inr (ys ! i)"
      using y nth ys by (cases i) simp_all
  qed
qed

lemma welcome_messages_shape:
  assumes "welcome_messages E lang = Inr declared"
  shows "\<exists>c0 c2 c3 c9.
      declared =
        [\<lparr>channel_name = ZULIP_DISCUSSION_CHANNEL_NAME E lang,
          topic_name = gettext E lang ''moving messages'', content = c0\<rparr>,
         \<lparr>channel_name = ZULIP_DISCUSSION_CHANNEL_NAME E lang,
          topic_name = gettext E lang ''moving messages'',
          content = content2_of_moving_messages_topic_name E lang\<rparr>,
         \<lparr>channel_name = ZULIP_SANDBOX_CHANNEL_NAME E lang,
          topic_name = gettext E lang ''experiments'', content = c2\<rparr>,
         \<lparr>channel_name = ZULIP_SANDBOX_CHANNEL_NAME E lang,
          topic_name = gettext E lang ''experiments'', content = c3\<rparr>,
         \<lparr>channel_name = ZULIP_SANDBOX_CHANNEL_NAME E lang,
          topic_name = gettext E lang ''start a conversation'',
          content = content1_of_start_conversation_topic_name E lang\<rparr>,
         \<lparr>channel_name = ZULIP_SANDBOX_CHANNEL_NAME E lang,
          topic_name = gettext E lang ''start a conversation'',
          content = content2_of_start_conversation_topic_name E lang\<rparr>,
         \<lparr>channel_name = ZULIP_SANDBOX_CHANNEL_NAME E lang,
          topic_name = gettext E lang ''start a conversation'',
          content = content3_of_start_conversation_topic_name E lang\<rparr>,
         \<lparr>channel_name = DEFAULT_NOTIFICATION_STREAM_NAME E lang,
          topic_name = gettext E lang ''greetings'',
          content = content1_of_greetings_topic_name E lang\<rparr>,
         \<lparr>channel_name = DEFAULT_NOTIFICATION_STREAM_NAME E lang,
          topic_name = gettext E lang ''greetings'',
          content = content2_of_greetings_topic_name E lang\<rparr>,
         \<lparr>channel_name = ZULIP_DISCUSSION_CHANNEL_NAME E lang,
          topic_name = gettext E lang ''welcome to Zulip!'', content = c9\<rparr>,
         \<lparr>channel_name = ZULIP_DISCUSSION_CHANNEL_NAME E lang,
          topic_name = gettext E lang ''welcome to Zulip!'',
          content = content2_of_welcome_to_zulip_topic_name E lang\<rparr>,
         \<lparr>channel_name = ZULIP_DISCUSSION_CHANNEL_NAME E lang,
          topic_name = gettext E lang ''welcome to Zulip!'',
          content = content3_of_welcome_to_zulip_topic_name E lang\<rparr>]"
  using assms unfolding welcome_messages_def
  by (auto split: sum.splits)

lemma first_ids_loop:
  "k + length ms \<le> length ids \<Longrightarrow>
   onboarding_topics_first_message_ids (enumerate k ms) ids seen first =
     Inr (first \<union> {ids ! (k + j) | j. j < length ms
                      \<and> topic_name (ms ! j) \<notin> seen \<union> set (map topic_name (take j ms))})"
proof (induction ms arbitrary: k seen first)
  case Nil
  then show ?case by simp
next
  case (Cons m ms)
  let ?fresh = "\<lambda>seen ms j. j < length ms
      \<and> topic_name (ms ! j) \<notin> seen \<union> set (map topic_name (take j ms))"
  have step: "Suc k + length ms \<le> length ids" using Cons.prems by simp
  have k: "k < length ids" using Cons.prems by simp
  show ?case
  proof (cases "topic_name m \<in> seen")
    case True
    have "{ids ! (k + j) | j. ?fresh seen (m # ms) j}
        = {ids ! (Suc k + j) | j. ?fresh seen ms j}" (is "?L = ?R")
    proof (intro set_eqI iffI)
      fix x assume "x \<in> ?L"
      then obtain j where j: "x = ids ! (k + j)" "?fresh seen (m # ms) j" by blast
      with True obtain j' where "j = Suc j'" by (cases j) auto
      with j True show "x \<in> ?R" by auto
    next
      fix x assume "x \<in> ?R"
      then obtain j where j: "x = ids ! (Suc k + j)" "?fresh seen ms j" by blast
      with True have "?fresh seen (m # ms) (Suc j)" by auto
      with j show "x \<in> ?L" by (intro CollectI exI [of _ "Suc j"]) simp
    qed
    with True Cons.IH [OF step] show ?thesis by simp
  next
    case False
    have "insert (ids ! k) {ids ! (Suc k + j) | j. ?fresh (insert (topic_name m) seen) ms j}
        = {ids ! (k + j) | j. ?fresh seen (m # ms) j}" (is "?L = ?R")
    proof (intro set_eqI iffI)
      fix x assume "x \<in> ?L"
      then consider "x = ids ! k"
        | j where "x = ids ! (Suc k + j)" "?fresh (insert (topic_name m) seen) ms j" by blast
      then show "x \<in> ?R"
      proof cases
        case 1
        with False show ?thesis by (intro CollectI exI [of _ 0]) simp
      next
        case (2 j)
        then have "?fresh seen (m # ms) (Suc j)" by auto
        with 2 show ?thesis by (intro CollectI exI [of _ "Suc j"]) simp
      qed
    next
      fix x assume "x \<in> ?R"
      then obtain j where j: "x = ids ! (k + j)" "?fresh seen (m # ms) j" by blast
      show "x \<in> ?L"
      proof (cases j)
        case 0
        with j show ?thesis by simp
      next
        case (Suc j')
        with j have "?fresh (insert (topic_name m) seen) ms j'" by auto
        with j Suc show ?thesis by auto
      qed
    qed
    then have sets: "insert (ids ! k) first
          \<union> {ids ! (Suc k + j) | j. ?fresh (insert (topic_name m) seen) ms j}
        = first \<union> {ids ! (k + j) | j. ?fresh seen (m # ms) j}"
      by blast
    have "onboarding_topics_first_message_ids (enumerate k (m # ms)) ids seen first
        = onboarding_topics_first_message_ids (enumerate (Suc k) ms) ids
            (insert (topic_name m) seen) (insert (ids ! k) first)"
      using False k by simp
    also have "\<dots> = Inr (insert (ids ! k) first
          \<union> {ids ! (Suc k + j) | j. ?fresh (insert (topic_name m) seen) ms j})"
      by (rule Cons.IH [OF step])
    finally show ?thesis unfolding sets .
  qed
qed


lemma body_returns:
  assumes "send_initial_realm_messages_body B E lang realm db = (Inr (), db')"
  shows "\<exists>welcome_bot declared prepared results db1 first_ids found emoji.
            get_system_bot B (WELCOME_BOT E) (realm_id realm) db = Inr welcome_bot
          \<and> welcome_messages E lang = Inr declared
          \<and> collect (map (\<lambda>message.
                 internal_prep_stream_message_by_name B realm welcome_bot
                   (channel_name message) (topic_name message)
                   (remove_single_newlines E (content message)) db) declared) = Inr prepared
          \<and> do_send_messages B prepared db = (Inr results, db1)
          \<and> onboarding_topics_first_message_ids (enumerate 0 declared)
                (map result_message_id results) {} {} = Inr first_ids
          \<and> greetings_message E lang (map result_message_id results)
                (bulk_create (onboarding_user_messages realm first_ids
                                (map result_message_id results)) db1) = Some found
          \<and> get_emoji_data B (realm_id realm) ''wave''
                (bulk_create (onboarding_user_messages realm first_ids
                                (map result_message_id results)) db1) = Inr emoji
          \<and> do_add_reaction B welcome_bot found ''wave'' (emoji_code emoji) (reaction_type emoji)
                (bulk_create (onboarding_user_messages realm first_ids
                                (map result_message_id results)) db1) = (Inr (), db')"
  using assms
  unfolding send_initial_realm_messages_body_def react_to_greetings_def Let_def
  by (auto split: sum.splits prod.splits option.splits)

lemma marker_rows:
  "map oum_message_id (onboarding_user_messages realm first_ids message_ids) = message_ids"
  "\<forall>row \<in> set (onboarding_user_messages realm first_ids message_ids).
     oum_realm row = realm \<and> historical \<in> flags row
     \<and> (starred \<in> flags row \<longleftrightarrow> oum_message_id row \<in> first_ids)"
  by (auto simp: onboarding_user_messages_def comp_def)

text \<open>
  C7. \<open>send_initial_realm_messages\<close> is atomic. Whenever it raises, the database is the
  one it was called with: nothing of what the steps before the exception wrote is kept.
  Whenever it returns, every step has succeeded: the messages were handed to
  \<open>do_send_messages\<close>, one onboarding marker row per returned id, for the given realm,
  flagged \<open>historical\<close> and, for the first message of a topic, \<open>starred\<close>, was
  appended to the table of marker rows of the database that \<open>do_send_messages\<close> left,
  the greetings message was found in that database, and the database returned is the one
  that the reaction call left when it was made on it.
\<close>

theorem send_initial_realm_messages_atomic:
  "(\<forall>e db'. send_initial_realm_messages B E lang realm db = (Inl e, db') \<longrightarrow> db' = db)
   \<and> (\<forall>db'. send_initial_realm_messages B E lang realm db = (Inr (), db') \<longrightarrow>
        (\<exists>welcome_bot declared prepared results db1 first_ids rows found emoji.
            get_system_bot B (WELCOME_BOT E) (realm_id realm) db = Inr welcome_bot
          \<and> welcome_messages E lang = Inr declared
          \<and> collect (map (\<lambda>message.
                 internal_prep_stream_message_by_name B realm welcome_bot
                   (channel_name message) (topic_name message)
                   (remove_single_newlines E (content message)) db) declared) = Inr prepared
          \<and> do_send_messages B prepared db = (Inr results, db1)
          \<and> onboarding_topics_first_message_ids (enumerate 0 declared)
                (map result_message_id results) {} {} = Inr first_ids
          \<and> map oum_message_id rows = map result_message_id results
          \<and> (\<forall>row \<in> set rows.
                oum_realm row = realm \<and> historical \<in> flags row
              \<and> (starred \<in> flags row \<longleftrightarrow> oum_message_id row \<in> first_ids))
          \<and> greetings_message E lang (map result_message_id results)
                (db1\<lparr>OnboardingUserMessage_objects :=
                       OnboardingUserMessage_objects db1 @ rows\<rparr>) = Some found
          \<and> get_emoji_data B (realm_id realm) ''wave''
                (db1\<lparr>OnboardingUserMessage_objects :=
                       OnboardingUserMessage_objects db1 @ rows\<rparr>) = Inr emoji
          \<and> do_add_reaction B welcome_bot found ''wave'' (emoji_code emoji) (reaction_type emoji)
                (db1\<lparr>OnboardingUserMessage_objects :=
                       OnboardingUserMessage_objects db1 @ rows\<rparr>) = (Inr (), db')))"
proof (intro conjI allI impI)
  fix e db'
  assume "send_initial_realm_messages B E lang realm db = (Inl e, db')"
  then show "db' = db"
    by (auto simp: send_initial_realm_messages_def atomic_def split: prod.splits sum.splits)
next
  fix db'
  assume "send_initial_realm_messages B E lang realm db = (Inr (), db')"
  then have "send_initial_realm_messages_body B E lang realm db = (Inr (), db')"
    by (auto simp: send_initial_realm_messages_def atomic_def split: prod.splits sum.splits)
  from body_returns [OF this]
  obtain welcome_bot declared prepared results db1 first_ids found emoji where
    bot: "get_system_bot B (WELCOME_BOT E) (realm_id realm) db = Inr welcome_bot" and
    declared: "welcome_messages E lang = Inr declared" and
    prepared: "collect (map (\<lambda>message.
                 internal_prep_stream_message_by_name B realm welcome_bot
                   (channel_name message) (topic_name message)
                   (remove_single_newlines E (content message)) db) declared) = Inr prepared" and
    sent: "do_send_messages B prepared db = (Inr results, db1)" and
    first: "onboarding_topics_first_message_ids (enumerate 0 declared)
                (map result_message_id results) {} {} = Inr first_ids" and
    lookup: "greetings_message E lang (map result_message_id results)
                (bulk_create (onboarding_user_messages realm first_ids
                                (map result_message_id results)) db1) = Some found" and
    emoji: "get_emoji_data B (realm_id realm) ''wave''
                (bulk_create (onboarding_user_messages realm first_ids
                                (map result_message_id results)) db1) = Inr emoji" and
    reacted: "do_add_reaction B welcome_bot found ''wave'' (emoji_code emoji) (reaction_type emoji)
                (bulk_create (onboarding_user_messages realm first_ids
                                (map result_message_id results)) db1) = (Inr (), db')"
    by (elim exE conjE)
  let ?rows = "onboarding_user_messages realm first_ids (map result_message_id results)"
  show "\<exists>welcome_bot declared prepared results db1 first_ids rows found emoji.
            get_system_bot B (WELCOME_BOT E) (realm_id realm) db = Inr welcome_bot
          \<and> welcome_messages E lang = Inr declared
          \<and> collect (map (\<lambda>message.
                 internal_prep_stream_message_by_name B realm welcome_bot
                   (channel_name message) (topic_name message)
                   (remove_single_newlines E (content message)) db) declared) = Inr prepared
          \<and> do_send_messages B prepared db = (Inr results, db1)
          \<and> onboarding_topics_first_message_ids (enumerate 0 declared)
                (map result_message_id results) {} {} = Inr first_ids
          \<and> map oum_message_id rows = map result_message_id results
          \<and> (\<forall>row \<in> set rows.
                oum_realm row = realm \<and> historical \<in> flags row
              \<and> (starred \<in> flags row \<longleftrightarrow> oum_message_id row \<in> first_ids))
          \<and> greetings_message E lang (map result_message_id results)
                (db1\<lparr>OnboardingUserMessage_objects :=
                       OnboardingUserMessage_objects db1 @ rows\<rparr>) = Some found
          \<and> get_emoji_data B (realm_id realm) ''wave''
                (db1\<lparr>OnboardingUserMessage_objects :=
                       OnboardingUserMessage_objects db1 @ rows\<rparr>) = Inr emoji
          \<and> do_add_reaction B welcome_bot found ''wave'' (emoji_code emoji) (reaction_type emoji)
                (db1\<lparr>OnboardingUserMessage_objects :=
                       OnboardingUserMessage_objects db1 @ rows\<rparr>) = (Inr (), db')"
    by (intro exI [of _ welcome_bot] exI [of _ declared] exI [of _ prepared]
          exI [of _ results] exI [of _ db1] exI [of _ first_ids] exI [of _ ?rows]
          exI [of _ found] exI [of _ emoji] conjI)
       (rule bot declared prepared sent first marker_rows lookup [unfolded bulk_create_def]
          emoji [unfolded bulk_create_def] reacted [unfolded bulk_create_def])+
qed

theorem send_initial_realm_messages_atomic_witness:
  "(case send_initial_realm_messages_body failing_backend example_env ''en'' example_realm
           example_db of
      (outcome, db') \<Rightarrow>
          outcome = Inl (External 2)
        \<and> length (Message_objects db') = 12
        \<and> length (OnboardingUserMessage_objects db') = 12)
   \<and> send_initial_realm_messages failing_backend example_env ''en'' example_realm example_db
     = (Inl (External 2), example_db)
   \<and> (case send_initial_realm_messages reference_backend example_env ''en'' example_realm
             example_db of
        (outcome, db') \<Rightarrow>
            outcome = Inr ()
          \<and> length (Message_objects db') = 12
          \<and> map oum_message_id (OnboardingUserMessage_objects db')
              = map msg_id (Message_objects db')
          \<and> map (\<lambda>r. (email (reaction_user r), msg_id (reaction_message r), emoji_name r))
                 (Reaction_objects db')
              = [(''welcome-bot@zulip.com'', 8, ''wave'')])
   \<and> (\<exists>welcome_bot declared prepared results db1 first_ids rows found emoji.
            get_system_bot reference_backend (WELCOME_BOT example_env) (realm_id example_realm)
              example_db = Inr welcome_bot
          \<and> welcome_messages example_env ''en'' = Inr declared
          \<and> collect (map (\<lambda>message.
                 internal_prep_stream_message_by_name reference_backend example_realm welcome_bot
                   (channel_name message) (topic_name message)
                   (remove_single_newlines example_env (content message)) example_db) declared)
              = Inr prepared
          \<and> do_send_messages reference_backend prepared example_db = (Inr results, db1)
          \<and> onboarding_topics_first_message_ids (enumerate 0 declared)
                (map result_message_id results) {} {} = Inr first_ids
          \<and> map oum_message_id rows = map result_message_id results
          \<and> (\<forall>row \<in> set rows.
                oum_realm row = example_realm \<and> historical \<in> flags row
              \<and> (starred \<in> flags row \<longleftrightarrow> oum_message_id row \<in> first_ids))
          \<and> greetings_message example_env ''en'' (map result_message_id results)
                (db1\<lparr>OnboardingUserMessage_objects :=
                       OnboardingUserMessage_objects db1 @ rows\<rparr>) = Some found
          \<and> get_emoji_data reference_backend (realm_id example_realm) ''wave''
                (db1\<lparr>OnboardingUserMessage_objects :=
                       OnboardingUserMessage_objects db1 @ rows\<rparr>) = Inr emoji
          \<and> do_add_reaction reference_backend welcome_bot found ''wave''
                (emoji_code emoji) (reaction_type emoji)
                (db1\<lparr>OnboardingUserMessage_objects :=
                       OnboardingUserMessage_objects db1 @ rows\<rparr>)
              = (Inr (), snd (send_initial_realm_messages reference_backend example_env ''en''
                                example_realm example_db)))"
proof -
  let ?failing =
    "send_initial_realm_messages failing_backend example_env ''en'' example_realm example_db"
  let ?run =
    "send_initial_realm_messages reference_backend example_env ''en'' example_realm example_db"
  have raised: "(case send_initial_realm_messages_body failing_backend example_env ''en''
           example_realm example_db of
      (outcome, db') \<Rightarrow>
          outcome = Inl (External 2)
        \<and> length (Message_objects db') = 12
        \<and> length (OnboardingUserMessage_objects db') = 12)"
    by code_simp
  then have "fst ?failing = Inl (External 2)"
    by (cases "send_initial_realm_messages_body failing_backend example_env ''en''
                 example_realm example_db")
       (simp add: send_initial_realm_messages_def atomic_def)
  then have failing: "?failing = (Inl (External 2), snd ?failing)"
    by (simp add: prod_eq_iff)
  from send_initial_realm_messages_atomic
         [of failing_backend example_env "''en''" example_realm example_db,
          THEN conjunct1, rule_format, OF failing]
  have "snd ?failing = example_db" .
  with failing have rolled_back: "?failing = (Inl (External 2), example_db)" by simp
  have returned: "(case ?run of
        (outcome, db') \<Rightarrow>
            outcome = Inr ()
          \<and> length (Message_objects db') = 12
          \<and> map oum_message_id (OnboardingUserMessage_objects db')
              = map msg_id (Message_objects db')
          \<and> map (\<lambda>r. (email (reaction_user r), msg_id (reaction_message r), emoji_name r))
                 (Reaction_objects db')
              = [(''welcome-bot@zulip.com'', 8, ''wave'')])"
    by code_simp
  then have "fst ?run = Inr ()"
    by (cases ?run) simp
  then have run: "?run = (Inr (), snd ?run)"
    by (simp add: prod_eq_iff)
  note committed = send_initial_realm_messages_atomic
         [of reference_backend example_env "''en''" example_realm example_db,
          THEN conjunct2, rule_format, OF run]
  show ?thesis
    by (intro conjI) (rule raised rolled_back returned committed)+
qed

lemma body_after_send:
  assumes bot: "get_system_bot B (WELCOME_BOT E) (realm_id realm) db = Inr welcome_bot"
    and declared: "welcome_messages E lang = Inr declared"
    and prepared: "collect (map (\<lambda>message.
             internal_prep_stream_message_by_name B realm welcome_bot
               (channel_name message) (topic_name message)
               (remove_single_newlines E (content message)) db) declared) = Inr prepared"
    and sent: "do_send_messages B prepared db = (Inr results, db1)"
    and one_each: "length results = length prepared"
  shows "send_initial_realm_messages_body B E lang realm db =
           react_to_greetings B E lang realm welcome_bot (map result_message_id results)
             (bulk_create
                (onboarding_user_messages realm
                   {map result_message_id results ! j | j. j < length declared
                      \<and> topic_name (declared ! j) \<notin> set (map topic_name (take j declared))}
                   (map result_message_id results))
                db1)"
proof -
  from collect_map_nth [OF prepared] one_each
  have "0 + length declared \<le> length (map result_message_id results)" by simp
  from first_ids_loop [OF this, of "{}" "{}"]
  have "onboarding_topics_first_message_ids (enumerate 0 declared)
          (map result_message_id results) {} {} =
        Inr {map result_message_id results ! j | j. j < length declared
               \<and> topic_name (declared ! j) \<notin> set (map topic_name (take j declared))}"
    by simp
  then show ?thesis
    unfolding send_initial_realm_messages_body_def Let_def
    by (simp add: bot declared prepared sent)
qed

lemma starred_rows:
  assumes "distinct ids" and "length ids = length declared" and "i < length declared"
  shows "starred \<in> flags (onboarding_user_messages realm
            {ids ! j | j. j < length declared
               \<and> topic_name (declared ! j) \<notin> set (map topic_name (take j declared))} ids ! i)
         \<longleftrightarrow> topic_name (declared ! i) \<notin> set (map topic_name (take i declared))"
proof -
  have "ids ! i \<in> {ids ! j | j. j < length declared
               \<and> topic_name (declared ! j) \<notin> set (map topic_name (take j declared))}
        \<longleftrightarrow> topic_name (declared ! i) \<notin> set (map topic_name (take i declared))"
    using assms by (auto simp: nth_eq_iff_index_eq)
  then show ?thesis
    using assms by (simp add: onboarding_user_messages_def)
qed

lemma example_declared: "\<exists>declared. welcome_messages example_env ''en'' = Inr declared"
proof -
  have "\<not> isl (welcome_messages example_env ''en'')" by code_simp
  then show ?thesis by (cases "welcome_messages example_env ''en''") simp_all
qed

lemma example_bot_found:
  "get_system_bot reference_backend (WELCOME_BOT example_env) (realm_id example_realm) example_db
     = Inr example_bot"
  by (simp add: reference_backend_def example_env_def example_db_def example_realm_def
        example_bot_def example_user_def)

lemma reference_prepared:
  "collect (map (\<lambda>message.
       internal_prep_stream_message_by_name reference_backend realm welcome_bot
         (channel_name message) (topic_name message)
         (remove_single_newlines E (content message)) db) declared)
   = Inr (map (\<lambda>message.
            \<lparr>msg_id = 0, msg_sender = welcome_bot,
             msg_recipient = Channel (channel_name message) (topic_name message),
             msg_content = remove_single_newlines E (content message)\<rparr>) declared)"
  by (induction declared) (simp_all add: reference_backend_def)

lemma enumerate_from_zero: "enumerate 0 xs = zip [0..<length xs] xs"
  by (simp add: enumerate_eq_zip)

lemma reference_sent:
  "do_send_messages reference_backend requests db =
     (Inr (map (\<lambda>i. \<lparr>result_message_id = fresh_message_id db + i\<rparr>) [0..<length requests]),
      db\<lparr>Message_objects := Message_objects db @
           map (\<lambda>i. (requests ! i)\<lparr>msg_id := fresh_message_id db + i\<rparr>) [0..<length requests]\<rparr>)"
proof -
  have rows: "map (\<lambda>(i, m). m\<lparr>msg_id := fresh_message_id db + i\<rparr>) (enumerate 0 requests)
      = map (\<lambda>i. (requests ! i)\<lparr>msg_id := fresh_message_id db + i\<rparr>) [0..<length requests]"
    by (rule nth_equalityI) (simp_all add: enumerate_from_zero)
  have ids: "map (\<lambda>x. \<lparr>result_message_id = fresh_message_id db + fst x\<rparr>) (enumerate 0 requests)
      = map (\<lambda>i. \<lparr>result_message_id = fresh_message_id db + i\<rparr>) [0..<length requests]"
    by (rule nth_equalityI) (simp_all add: enumerate_from_zero)
  show ?thesis
    unfolding reference_backend_def rows [symmetric]
    by (simp add: Let_def comp_def case_prod_unfold ids)
qed

lemma example_run:
  "\<exists>declared prepared results db1.
       welcome_messages example_env ''en'' = Inr declared
     \<and> collect (map (\<lambda>message.
           internal_prep_stream_message_by_name reference_backend example_realm example_bot
             (channel_name message) (topic_name message)
             (remove_single_newlines example_env (content message)) example_db) declared)
         = Inr prepared
     \<and> do_send_messages reference_backend prepared example_db = (Inr results, db1)
     \<and> length results = length prepared
     \<and> distinct (map result_message_id results)
     \<and> (\<forall>i < length prepared. \<exists>m \<in> set (Message_objects db1).
            msg_id m = result_message_id (results ! i)
          \<and> msg_content m = remove_single_newlines example_env (content (declared ! i)))"
proof -
  from example_declared obtain declared where
    declared: "welcome_messages example_env ''en'' = Inr declared" ..
  let ?prepared = "map (\<lambda>message.
            \<lparr>msg_id = 0, msg_sender = example_bot,
             msg_recipient = Channel (channel_name message) (topic_name message),
             msg_content = remove_single_newlines example_env (content message)\<rparr>) declared"
  let ?results = "map (\<lambda>i. \<lparr>result_message_id = fresh_message_id example_db + i\<rparr>)
      [0..<length ?prepared]"
  let ?db1 = "example_db\<lparr>Message_objects := Message_objects example_db @
      map (\<lambda>i. (?prepared ! i)\<lparr>msg_id := fresh_message_id example_db + i\<rparr>)
        [0..<length ?prepared]\<rparr>"
  have ids: "map result_message_id ?results
      = map (\<lambda>i. fresh_message_id example_db + i) [0..<length ?prepared]"
    by (simp add: comp_def)
  have "distinct (map result_message_id ?results)"
    unfolding ids by (simp add: distinct_map inj_on_def)
  moreover have "\<exists>m \<in> set (Message_objects ?db1).
            msg_id m = result_message_id (?results ! i)
          \<and> msg_content m = remove_single_newlines example_env (content (declared ! i))"
    if "i < length ?prepared" for i
  proof (intro bexI conjI)
    show "(?prepared ! i)\<lparr>msg_id := fresh_message_id example_db + i\<rparr>
        \<in> set (Message_objects ?db1)"
      using that by simp
  qed (use that in simp_all)
  ultimately show ?thesis
    using declared reference_prepared [of example_realm example_bot example_env example_db declared]
      reference_sent [of ?prepared example_db]
    by (intro exI [of _ declared] exI [of _ ?prepared] exI [of _ ?results] exI [of _ ?db1] conjI)
       simp_all
qed

text \<open>
  C2. In a run where the Welcome Bot is found, the declared list is built, every message is
  prepared and \<open>do_send_messages\<close> returns one result per request with distinct ids:
  the list handed to \<open>do_send_messages\<close> holds one prepared message per declared
  (channel, topic, content) entry, in the declared order, the twelve entries being addressed
  as listed with the three \<open>welcome to Zulip!\<close> messages last; and the function creates
  one onboarding marker row per returned id, in the same order, every row for the given
  realm and with the \<open>historical\<close> flag, the row of a message being \<open>starred\<close> exactly
  when no earlier declared message has its topic name (with five distinct topic names: the
  rows at positions 0, 2, 4, 7 and 9).
\<close>

theorem send_initial_realm_messages_bookkeeping:
  assumes bot: "get_system_bot B (WELCOME_BOT E) (realm_id realm) db = Inr welcome_bot"
    and declared: "welcome_messages E lang = Inr declared"
    and prepared: "collect (map (\<lambda>message.
             internal_prep_stream_message_by_name B realm welcome_bot
               (channel_name message) (topic_name message)
               (remove_single_newlines E (content message)) db) declared) = Inr prepared"
    and sent: "do_send_messages B prepared db = (Inr results, db1)"
    and one_each: "length results = length prepared"
    and ids: "distinct (map result_message_id results)"
  shows "length declared = 12
     \<and> length prepared = 12
     \<and> (\<forall>i < 12. internal_prep_stream_message_by_name B realm welcome_bot
                     (channel_name (declared ! i)) (topic_name (declared ! i))
                     (remove_single_newlines E (content (declared ! i))) db
                   = Inr (prepared ! i))
     \<and> map (\<lambda>message. (channel_name message, topic_name message)) declared =
          [(ZULIP_DISCUSSION_CHANNEL_NAME E lang, gettext E lang ''moving messages''),
           (ZULIP_DISCUSSION_CHANNEL_NAME E lang, gettext E lang ''moving messages''),
           (ZULIP_SANDBOX_CHANNEL_NAME E lang, gettext E lang ''experiments''),
           (ZULIP_SANDBOX_CHANNEL_NAME E lang, gettext E lang ''experiments''),
           (ZULIP_SANDBOX_CHANNEL_NAME E lang, gettext E lang ''start a conversation''),
           (ZULIP_SANDBOX_CHANNEL_NAME E lang, gettext E lang ''start a conversation''),
           (ZULIP_SANDBOX_CHANNEL_NAME E lang, gettext E lang ''start a conversation''),
           (DEFAULT_NOTIFICATION_STREAM_NAME E lang, gettext E lang ''greetings''),
           (DEFAULT_NOTIFICATION_STREAM_NAME E lang, gettext E lang ''greetings''),
           (ZULIP_DISCUSSION_CHANNEL_NAME E lang, gettext E lang ''welcome to Zulip!''),
           (ZULIP_DISCUSSION_CHANNEL_NAME E lang, gettext E lang ''welcome to Zulip!''),
           (ZULIP_DISCUSSION_CHANNEL_NAME E lang, gettext E lang ''welcome to Zulip!'')]
     \<and> (\<exists>rows.
           send_initial_realm_messages_body B E lang realm db =
             react_to_greetings B E lang realm welcome_bot (map result_message_id results)
               (db1\<lparr>OnboardingUserMessage_objects := OnboardingUserMessage_objects db1 @ rows\<rparr>)
         \<and> map oum_message_id rows = map result_message_id results
         \<and> (\<forall>i < 12. oum_realm (rows ! i) = realm
                \<and> historical \<in> flags (rows ! i)
                \<and> (starred \<in> flags (rows ! i) \<longleftrightarrow>
                     topic_name (declared ! i) \<notin> set (map topic_name (take i declared))))
         \<and> (distinct [gettext E lang ''moving messages'', gettext E lang ''experiments'',
                       gettext E lang ''start a conversation'', gettext E lang ''greetings'',
                       gettext E lang ''welcome to Zulip!''] \<longrightarrow>
              (\<forall>i < 12. starred \<in> flags (rows ! i) \<longleftrightarrow> i \<in> {0, 2, 4, 7, 9})))"
proof -
  let ?ids = "map result_message_id results"
  let ?first = "{?ids ! j | j. j < length declared
                  \<and> topic_name (declared ! j) \<notin> set (map topic_name (take j declared))}"
  let ?rows = "onboarding_user_messages realm ?first ?ids"
  from collect_map_nth [OF prepared] have
    len: "length prepared = length declared" and
    nth: "\<forall>i < length declared.
            internal_prep_stream_message_by_name B realm welcome_bot
              (channel_name (declared ! i)) (topic_name (declared ! i))
              (remove_single_newlines E (content (declared ! i))) db = Inr (prepared ! i)"
    by simp_all
  from welcome_messages_shape [OF declared] obtain c0 c2 c3 c9 where
    shape: "declared =
        [\<lparr>channel_name = ZULIP_DISCUSSION_CHANNEL_NAME E lang,
          topic_name = gettext E lang ''moving messages'', content = c0\<rparr>,
         \<lparr>channel_name = ZULIP_DISCUSSION_CHANNEL_NAME E lang,
          topic_name = gettext E lang ''moving messages'',
          content = content2_of_moving_messages_topic_name E lang\<rparr>,
         \<lparr>channel_name = ZULIP_SANDBOX_CHANNEL_NAME E lang,
          topic_name = gettext E lang ''experiments'', content = c2\<rparr>,
         \<lparr>channel_name = ZULIP_SANDBOX_CHANNEL_NAME E lang,
          topic_name = gettext E lang ''experiments'', content = c3\<rparr>,
         \<lparr>channel_name = ZULIP_SANDBOX_CHANNEL_NAME E lang,
          topic_name = gettext E lang ''start a conversation'',
          content = content1_of_start_conversation_topic_name E lang\<rparr>,
         \<lparr>channel_name = ZULIP_SANDBOX_CHANNEL_NAME E lang,
          topic_name = gettext E lang ''start a conversation'',
          content = content2_of_start_conversation_topic_name E lang\<rparr>,
         \<lparr>channel_name = ZULIP_SANDBOX_CHANNEL_NAME E lang,
          topic_name = gettext E lang ''start a conversation'',
          content = content3_of_start_conversation_topic_name E lang\<rparr>,
         \<lparr>channel_name = DEFAULT_NOTIFICATION_STREAM_NAME E lang,
          topic_name = gettext E lang ''greetings'',
          content = content1_of_greetings_topic_name E lang\<rparr>,
         \<lparr>channel_name = DEFAULT_NOTIFICATION_STREAM_NAME E lang,
          topic_name = gettext E lang ''greetings'',
          content = content2_of_greetings_topic_name E lang\<rparr>,
         \<lparr>channel_name = ZULIP_DISCUSSION_CHANNEL_NAME E lang,
          topic_name = gettext E lang ''welcome to Zulip!'', content = c9\<rparr>,
         \<lparr>channel_name = ZULIP_DISCUSSION_CHANNEL_NAME E lang,
          topic_name = gettext E lang ''welcome to Zulip!'',
          content = content2_of_welcome_to_zulip_topic_name E lang\<rparr>,
         \<lparr>channel_name = ZULIP_DISCUSSION_CHANNEL_NAME E lang,
          topic_name = gettext E lang ''welcome to Zulip!'',
          content = content3_of_welcome_to_zulip_topic_name E lang\<rparr>]"
    by blast
  then have n: "length declared = 12" by simp
  have ids_len: "length ?ids = length declared" using len one_each by simp
  have pairs: "map (\<lambda>message. (channel_name message, topic_name message)) declared =
          [(ZULIP_DISCUSSION_CHANNEL_NAME E lang, gettext E lang ''moving messages''),
           (ZULIP_DISCUSSION_CHANNEL_NAME E lang, gettext E lang ''moving messages''),
           (ZULIP_SANDBOX_CHANNEL_NAME E lang, gettext E lang ''experiments''),
           (ZULIP_SANDBOX_CHANNEL_NAME E lang, gettext E lang ''experiments''),
           (ZULIP_SANDBOX_CHANNEL_NAME E lang, gettext E lang ''start a conversation''),
           (ZULIP_SANDBOX_CHANNEL_NAME E lang, gettext E lang ''start a conversation''),
           (ZULIP_SANDBOX_CHANNEL_NAME E lang, gettext E lang ''start a conversation''),
           (DEFAULT_NOTIFICATION_STREAM_NAME E lang, gettext E lang ''greetings''),
           (DEFAULT_NOTIFICATION_STREAM_NAME E lang, gettext E lang ''greetings''),
           (ZULIP_DISCUSSION_CHANNEL_NAME E lang, gettext E lang ''welcome to Zulip!''),
           (ZULIP_DISCUSSION_CHANNEL_NAME E lang, gettext E lang ''welcome to Zulip!''),
           (ZULIP_DISCUSSION_CHANNEL_NAME E lang, gettext E lang ''welcome to Zulip!'')]"
    unfolding shape by simp
  have body: "send_initial_realm_messages_body B E lang realm db =
      react_to_greetings B E lang realm welcome_bot ?ids
        (db1\<lparr>OnboardingUserMessage_objects := OnboardingUserMessage_objects db1 @ ?rows\<rparr>)"
    using body_after_send [OF bot declared prepared sent one_each]
    by (simp add: bulk_create_def)
  have row_ids: "map oum_message_id ?rows = ?ids"
    by (simp add: onboarding_user_messages_def comp_def)
  have row: "oum_realm (?rows ! i) = realm \<and> historical \<in> flags (?rows ! i)
       \<and> (starred \<in> flags (?rows ! i) \<longleftrightarrow>
            topic_name (declared ! i) \<notin> set (map topic_name (take i declared)))"
    if "i < 12" for i
  proof -
    from that n have i: "i < length declared" by simp
    from starred_rows [OF ids ids_len i, of realm]
    show ?thesis using i ids_len by (simp add: onboarding_user_messages_def)
  qed
  have positions: "starred \<in> flags (?rows ! i) \<longleftrightarrow> i \<in> {0, 2, 4, 7, 9}"
    if topics: "distinct [gettext E lang ''moving messages'', gettext E lang ''experiments'',
                       gettext E lang ''start a conversation'', gettext E lang ''greetings'',
                       gettext E lang ''welcome to Zulip!'']"
      and i: "i < 12" for i
  proof -
    from i have "i \<in> {0, 1, 2, 3, 4, 5, 6, 7, 8, 9, 10, 11}" by simp arith
    then have "topic_name (declared ! i) \<notin> set (map topic_name (take i declared))
        \<longleftrightarrow> i \<in> {0, 2, 4, 7, 9}"
      using topics unfolding shape by (elim insertE emptyE) (auto simp: take_Cons')
    with row [OF i] show ?thesis by simp
  qed
  have rows: "\<exists>rows.
           send_initial_realm_messages_body B E lang realm db =
             react_to_greetings B E lang realm welcome_bot (map result_message_id results)
               (db1\<lparr>OnboardingUserMessage_objects := OnboardingUserMessage_objects db1 @ rows\<rparr>)
         \<and> map oum_message_id rows = map result_message_id results
         \<and> (\<forall>i < 12. oum_realm (rows ! i) = realm
                \<and> historical \<in> flags (rows ! i)
                \<and> (starred \<in> flags (rows ! i) \<longleftrightarrow>
                     topic_name (declared ! i) \<notin> set (map topic_name (take i declared))))
         \<and> (distinct [gettext E lang ''moving messages'', gettext E lang ''experiments'',
                       gettext E lang ''start a conversation'', gettext E lang ''greetings'',
                       gettext E lang ''welcome to Zulip!''] \<longrightarrow>
              (\<forall>i < 12. starred \<in> flags (rows ! i) \<longleftrightarrow> i \<in> {0, 2, 4, 7, 9}))"
    using body row_ids row positions by (intro exI [of _ ?rows] conjI allI impI) blast+
  from nth n have each: "\<forall>i < 12. internal_prep_stream_message_by_name B realm welcome_bot
                     (channel_name (declared ! i)) (topic_name (declared ! i))
                     (remove_single_newlines E (content (declared ! i))) db
                   = Inr (prepared ! i)"
    by simp
  from len n have "length prepared = 12" by simp
  with n each pairs rows show ?thesis by (intro conjI)
qed

theorem send_initial_realm_messages_bookkeeping_witness:
  "\<exists>declared prepared results db1 rows.
       get_system_bot reference_backend (WELCOME_BOT example_env) (realm_id example_realm)
         example_db = Inr example_bot
     \<and> welcome_messages example_env ''en'' = Inr declared
     \<and> collect (map (\<lambda>message.
           internal_prep_stream_message_by_name reference_backend example_realm example_bot
             (channel_name message) (topic_name message)
             (remove_single_newlines example_env (content message)) example_db) declared)
         = Inr prepared
     \<and> do_send_messages reference_backend prepared example_db = (Inr results, db1)
     \<and> length results = length prepared
     \<and> distinct (map result_message_id results)
     \<and> length declared = 12
     \<and> send_initial_realm_messages_body reference_backend example_env ''en'' example_realm
           example_db =
         react_to_greetings reference_backend example_env ''en'' example_realm example_bot
           (map result_message_id results)
           (db1\<lparr>OnboardingUserMessage_objects := OnboardingUserMessage_objects db1 @ rows\<rparr>)
     \<and> map oum_message_id rows = map result_message_id results
     \<and> (\<forall>i < 12. starred \<in> flags (rows ! i) \<longleftrightarrow> i \<in> {0, 2, 4, 7, 9})"
proof -
  from example_run obtain declared prepared results db1 where
    declared: "welcome_messages example_env ''en'' = Inr declared" and
    prepared: "collect (map (\<lambda>message.
           internal_prep_stream_message_by_name reference_backend example_realm example_bot
             (channel_name message) (topic_name message)
             (remove_single_newlines example_env (content message)) example_db) declared)
         = Inr prepared" and
    sent: "do_send_messages reference_backend prepared example_db = (Inr results, db1)" and
    one_each: "length results = length prepared" and
    ids: "distinct (map result_message_id results)"
    by blast
  have topics: "distinct [gettext example_env ''en'' ''moving messages'',
      gettext example_env ''en'' ''experiments'',
      gettext example_env ''en'' ''start a conversation'',
      gettext example_env ''en'' ''greetings'',
      gettext example_env ''en'' ''welcome to Zulip!'']"
    by (simp add: example_env_def)
  note kept = send_initial_realm_messages_bookkeeping
    [OF example_bot_found declared prepared sent one_each ids]
  from kept have n: "length declared = 12" by (rule conjunct1)
  from kept [THEN conjunct2, THEN conjunct2, THEN conjunct2, THEN conjunct2]
  obtain rows where
    body: "send_initial_realm_messages_body reference_backend example_env ''en'' example_realm
           example_db =
         react_to_greetings reference_backend example_env ''en'' example_realm example_bot
           (map result_message_id results)
           (db1\<lparr>OnboardingUserMessage_objects := OnboardingUserMessage_objects db1 @ rows\<rparr>)" and
    row_ids: "map oum_message_id rows = map result_message_id results" and
    positions: "distinct [gettext example_env ''en'' ''moving messages'',
        gettext example_env ''en'' ''experiments'',
        gettext example_env ''en'' ''start a conversation'',
        gettext example_env ''en'' ''greetings'',
        gettext example_env ''en'' ''welcome to Zulip!''] \<longrightarrow>
      (\<forall>i < 12. starred \<in> flags (rows ! i) \<longleftrightarrow> i \<in> {0, 2, 4, 7, 9})"
    by (elim exE conjE)
  from positions topics
  have marked: "\<forall>i < 12. starred \<in> flags (rows ! i) \<longleftrightarrow> i \<in> {0, 2, 4, 7, 9}" by (rule mp)
  show ?thesis
    by (intro exI conjI)
       (rule example_bot_found declared prepared sent one_each ids n body row_ids marked)+
qed

lemma reference_delivers:
  assumes prepared: "collect (map (\<lambda>message.
             internal_prep_stream_message_by_name reference_backend realm welcome_bot
               (channel_name message) (topic_name message)
               (remove_single_newlines E (content message)) db) declared) = Inr prepared"
    and sent: "do_send_messages reference_backend prepared db = (Inr results, db1)"
  shows "length results = length prepared"
    and "distinct (map result_message_id results)"
    and "\<forall>i < length prepared. \<exists>m \<in> set (Message_objects db1).
            msg_id m = result_message_id (results ! i)
          \<and> msg_content m = remove_single_newlines E (content (declared ! i))"
    and "\<forall>i < length prepared. \<exists>m \<in> set (Message_objects db1).
            msg_id m = result_message_id (results ! i)
          \<and> msg_recipient m = Channel (channel_name (declared ! i)) (topic_name (declared ! i))"
proof -
  let ?request = "\<lambda>message.
            \<lparr>msg_id = 0, msg_sender = welcome_bot,
             msg_recipient = Channel (channel_name message) (topic_name message),
             msg_content = remove_single_newlines E (content message)\<rparr>"
  let ?row = "\<lambda>i. (prepared ! i)\<lparr>msg_id := fresh_message_id db + i\<rparr>"
  from prepared have requests: "prepared = map ?request declared"
    unfolding reference_prepared by simp
  from sent have
    results: "results = map (\<lambda>i. \<lparr>result_message_id = fresh_message_id db + i\<rparr>)
                 [0..<length prepared]" and
    db1: "db1 = db\<lparr>Message_objects := Message_objects db @ map ?row [0..<length prepared]\<rparr>"
    unfolding reference_sent by simp_all
  show "length results = length prepared"
    unfolding results by simp
  have "map result_message_id results
      = map (\<lambda>i. fresh_message_id db + i) [0..<length prepared]"
    unfolding results by (simp add: comp_def)
  then show "distinct (map result_message_id results)"
    by (simp add: distinct_map inj_on_def)
  have row: "?row i \<in> set (Message_objects db1)" if "i < length prepared" for i
    unfolding db1 using that by simp
  show "\<forall>i < length prepared. \<exists>m \<in> set (Message_objects db1).
            msg_id m = result_message_id (results ! i)
          \<and> msg_content m = remove_single_newlines E (content (declared ! i))"
  proof (intro allI impI)
    fix i assume i: "i < length prepared"
    then have "msg_id (?row i) = result_message_id (results ! i)"
      "msg_content (?row i) = remove_single_newlines E (content (declared ! i))"
      unfolding results by (simp_all add: requests)
    with row [OF i] show "\<exists>m \<in> set (Message_objects db1).
            msg_id m = result_message_id (results ! i)
          \<and> msg_content m = remove_single_newlines E (content (declared ! i))"
      by blast
  qed
  show "\<forall>i < length prepared. \<exists>m \<in> set (Message_objects db1).
            msg_id m = result_message_id (results ! i)
          \<and> msg_recipient m = Channel (channel_name (declared ! i)) (topic_name (declared ! i))"
  proof (intro allI impI)
    fix i assume i: "i < length prepared"
    then have "msg_id (?row i) = result_message_id (results ! i)"
      "msg_recipient (?row i) = Channel (channel_name (declared ! i)) (topic_name (declared ! i))"
      unfolding results by (simp_all add: requests)
    with row [OF i] show "\<exists>m \<in> set (Message_objects db1).
            msg_id m = result_message_id (results ! i)
          \<and> msg_recipient m = Channel (channel_name (declared ! i)) (topic_name (declared ! i))"
      by blast
  qed
qed




text \<open>
  C8. In a run of \<open>send_initial_realm_messages\<close> where the Welcome Bot is found, the
  declared list is built, every message is prepared and \<open>do_send_messages\<close> returns one
  result per request: for each of the discussion channel, the sandbox channel and the
  default notifications channel, the list handed to \<open>do_send_messages\<close> holds a request
  prepared for that channel from a declared entry, and the function goes on from the
  database that this call left, adding marker rows only. So, when the send path stores
  each request under its returned id and addressed as it was prepared, each of the three
  channels holds one of the sent messages in that database.
\<close>

theorem send_initial_realm_messages_reaches_default_channels:
  assumes bot: "get_system_bot B (WELCOME_BOT E) (realm_id realm) db = Inr welcome_bot"
    and declared: "welcome_messages E lang = Inr declared"
    and prepared: "collect (map (\<lambda>message.
             internal_prep_stream_message_by_name B realm welcome_bot
               (channel_name message) (topic_name message)
               (remove_single_newlines E (content message)) db) declared) = Inr prepared"
    and sent: "do_send_messages B prepared db = (Inr results, db1)"
    and one_each: "length results = length prepared"
  shows "(\<forall>channel \<in> {ZULIP_DISCUSSION_CHANNEL_NAME E lang, ZULIP_SANDBOX_CHANNEL_NAME E lang,
                       DEFAULT_NOTIFICATION_STREAM_NAME E lang}.
            \<exists>i < length prepared.
                channel_name (declared ! i) = channel
              \<and> internal_prep_stream_message_by_name B realm welcome_bot channel
                    (topic_name (declared ! i))
                    (remove_single_newlines E (content (declared ! i))) db = Inr (prepared ! i))
       \<and> (\<exists>rows.
            send_initial_realm_messages_body B E lang realm db =
              react_to_greetings B E lang realm welcome_bot (map result_message_id results)
                (db1\<lparr>OnboardingUserMessage_objects :=
                       OnboardingUserMessage_objects db1 @ rows\<rparr>))
       \<and> ((\<forall>i < length prepared. \<exists>m \<in> set (Message_objects db1).
               msg_id m = result_message_id (results ! i)
             \<and> msg_recipient m =
                 Channel (channel_name (declared ! i)) (topic_name (declared ! i)))
          \<longrightarrow> (\<forall>channel \<in> {ZULIP_DISCUSSION_CHANNEL_NAME E lang,
                               ZULIP_SANDBOX_CHANNEL_NAME E lang,
                               DEFAULT_NOTIFICATION_STREAM_NAME E lang}.
                 \<exists>m \<in> set (Message_objects db1). \<exists>topic.
                     msg_id m \<in> set (map result_message_id results)
                   \<and> msg_recipient m = Channel channel topic))"
proof -
  let ?channels = "{ZULIP_DISCUSSION_CHANNEL_NAME E lang, ZULIP_SANDBOX_CHANNEL_NAME E lang,
                    DEFAULT_NOTIFICATION_STREAM_NAME E lang}"
  from collect_map_nth [OF prepared] have
    len: "length prepared = length declared" and
    nth: "\<And>i. i < length declared \<Longrightarrow>
            internal_prep_stream_message_by_name B realm welcome_bot
              (channel_name (declared ! i)) (topic_name (declared ! i))
              (remove_single_newlines E (content (declared ! i))) db = Inr (prepared ! i)"
    by simp_all
  from welcome_messages_shape [OF declared] have
    n: "length declared = 12" and
    c0: "channel_name (declared ! 0) = ZULIP_DISCUSSION_CHANNEL_NAME E lang" and
    c2: "channel_name (declared ! 2) = ZULIP_SANDBOX_CHANNEL_NAME E lang" and
    c7: "channel_name (declared ! 7) = DEFAULT_NOTIFICATION_STREAM_NAME E lang"
    by auto
  have position: "\<exists>i < length declared. channel_name (declared ! i) = channel"
    if "channel \<in> ?channels" for channel
  proof -
    from that consider "channel = channel_name (declared ! 0)"
      | "channel = channel_name (declared ! 2)" | "channel = channel_name (declared ! 7)"
      unfolding c0 c2 c7 by blast
    then show ?thesis
    proof cases
      case 1
      with n show ?thesis by (intro exI [of _ 0]) simp
    next
      case 2
      with n show ?thesis by (intro exI [of _ 2]) simp
    next
      case 3
      with n show ?thesis by (intro exI [of _ 7]) simp
    qed
  qed
  have requested: "\<forall>channel \<in> ?channels.
            \<exists>i < length prepared.
                channel_name (declared ! i) = channel
              \<and> internal_prep_stream_message_by_name B realm welcome_bot channel
                    (topic_name (declared ! i))
                    (remove_single_newlines E (content (declared ! i))) db = Inr (prepared ! i)"
  proof
    fix channel assume "channel \<in> ?channels"
    from position [OF this] obtain i where
      i: "i < length declared" "channel_name (declared ! i) = channel" by blast
    with nth [OF i(1)] len show "\<exists>i < length prepared.
                channel_name (declared ! i) = channel
              \<and> internal_prep_stream_message_by_name B realm welcome_bot channel
                    (topic_name (declared ! i))
                    (remove_single_newlines E (content (declared ! i))) db = Inr (prepared ! i)"
      by auto
  qed
  have continued: "\<exists>rows.
            send_initial_realm_messages_body B E lang realm db =
              react_to_greetings B E lang realm welcome_bot (map result_message_id results)
                (db1\<lparr>OnboardingUserMessage_objects :=
                       OnboardingUserMessage_objects db1 @ rows\<rparr>)"
    by (rule exI)
       (rule body_after_send [OF bot declared prepared sent one_each, unfolded bulk_create_def])
  have received: "\<forall>channel \<in> ?channels.
                 \<exists>m \<in> set (Message_objects db1). \<exists>topic.
                     msg_id m \<in> set (map result_message_id results)
                   \<and> msg_recipient m = Channel channel topic"
    if delivered: "\<forall>i < length prepared. \<exists>m \<in> set (Message_objects db1).
               msg_id m = result_message_id (results ! i)
             \<and> msg_recipient m =
                 Channel (channel_name (declared ! i)) (topic_name (declared ! i))"
  proof
    fix channel assume "channel \<in> ?channels"
    from position [OF this] obtain i where
      i: "i < length declared" "channel_name (declared ! i) = channel" by blast
    with len have "i < length prepared" by simp
    with delivered obtain m where m: "m \<in> set (Message_objects db1)"
      "msg_id m = result_message_id (results ! i)"
      "msg_recipient m = Channel (channel_name (declared ! i)) (topic_name (declared ! i))"
      by blast
    from i len one_each have "result_message_id (results ! i) \<in> set (map result_message_id results)"
      by simp
    with m i(2) have "msg_id m \<in> set (map result_message_id results)
                   \<and> msg_recipient m = Channel channel (topic_name (declared ! i))"
      by simp
    then have "\<exists>topic. msg_id m \<in> set (map result_message_id results)
                   \<and> msg_recipient m = Channel channel topic"
      by (rule exI)
    with m(1) show "\<exists>m \<in> set (Message_objects db1). \<exists>topic.
                     msg_id m \<in> set (map result_message_id results)
                   \<and> msg_recipient m = Channel channel topic"
      by (rule bexI [rotated])
  qed
  from requested continued received show ?thesis by (intro conjI impI)
qed

theorem send_initial_realm_messages_reaches_default_channels_witness:
  "(\<exists>declared prepared results db1.
       get_system_bot reference_backend (WELCOME_BOT example_env) (realm_id example_realm)
         example_db = Inr example_bot
     \<and> welcome_messages example_env ''en'' = Inr declared
     \<and> collect (map (\<lambda>message.
           internal_prep_stream_message_by_name reference_backend example_realm example_bot
             (channel_name message) (topic_name message)
             (remove_single_newlines example_env (content message)) example_db) declared)
         = Inr prepared
     \<and> do_send_messages reference_backend prepared example_db = (Inr results, db1)
     \<and> length results = length prepared
     \<and> (\<forall>i < length prepared. \<exists>m \<in> set (Message_objects db1).
            msg_id m = result_message_id (results ! i)
          \<and> msg_recipient m =
              Channel (channel_name (declared ! i)) (topic_name (declared ! i)))
     \<and> (\<forall>channel \<in> {''Zulip'', ''sandbox'', ''general''}.
           \<exists>i < length prepared.
               channel_name (declared ! i) = channel
             \<and> internal_prep_stream_message_by_name reference_backend example_realm example_bot
                   channel (topic_name (declared ! i))
                   (remove_single_newlines example_env (content (declared ! i))) example_db
                 = Inr (prepared ! i))
     \<and> (\<forall>channel \<in> {''Zulip'', ''sandbox'', ''general''}.
           \<exists>m \<in> set (Message_objects db1). \<exists>topic.
               msg_id m \<in> set (map result_message_id results)
             \<and> msg_recipient m = Channel channel topic))
   \<and> (case send_initial_realm_messages reference_backend example_env ''en'' example_realm
             example_db of
        (outcome, db') \<Rightarrow>
            outcome = Inr ()
          \<and> map (\<lambda>m. case msg_recipient m of
                         Channel channel topic \<Rightarrow> channel
                       | Direct user \<Rightarrow> [])
                 (Message_objects db')
              = [''Zulip'', ''Zulip'', ''sandbox'', ''sandbox'', ''sandbox'', ''sandbox'',
                 ''sandbox'', ''general'', ''general'', ''Zulip'', ''Zulip'', ''Zulip''])"
proof -
  from example_declared obtain declared where
    declared: "welcome_messages example_env ''en'' = Inr declared" ..
  define prepared where "prepared = map (\<lambda>message.
            \<lparr>msg_id = 0, msg_sender = example_bot,
             msg_recipient = Channel (channel_name message) (topic_name message),
             msg_content = remove_single_newlines example_env (content message)\<rparr>) declared"
  have prepared: "collect (map (\<lambda>message.
           internal_prep_stream_message_by_name reference_backend example_realm example_bot
             (channel_name message) (topic_name message)
             (remove_single_newlines example_env (content message)) example_db) declared)
         = Inr prepared"
    unfolding prepared_def by (rule reference_prepared)
  obtain results db1 where
    sent: "do_send_messages reference_backend prepared example_db = (Inr results, db1)"
    unfolding reference_sent by blast
  note delivered = reference_delivers [OF prepared sent]
  have names: "ZULIP_DISCUSSION_CHANNEL_NAME example_env ''en'' = ''Zulip''"
    "ZULIP_SANDBOX_CHANNEL_NAME example_env ''en'' = ''sandbox''"
    "DEFAULT_NOTIFICATION_STREAM_NAME example_env ''en'' = ''general''"
    by (simp_all add: example_env_def)
  note reached = send_initial_realm_messages_reaches_default_channels
    [OF example_bot_found declared prepared sent delivered(1), unfolded names]
  note requested = reached [THEN conjunct1]
  note received = reached [THEN conjunct2, THEN conjunct2, THEN mp, OF delivered(4)]
  have run: "(case send_initial_realm_messages reference_backend example_env ''en''
             example_realm example_db of
        (outcome, db') \<Rightarrow>
            outcome = Inr ()
          \<and> map (\<lambda>m. case msg_recipient m of
                         Channel channel topic \<Rightarrow> channel
                       | Direct user \<Rightarrow> [])
                 (Message_objects db')
              = [''Zulip'', ''Zulip'', ''sandbox'', ''sandbox'', ''sandbox'', ''sandbox'',
                 ''sandbox'', ''general'', ''general'', ''Zulip'', ''Zulip'', ''Zulip''])"
    by code_simp
  have "\<exists>declared prepared results db1.
       get_system_bot reference_backend (WELCOME_BOT example_env) (realm_id example_realm)
         example_db = Inr example_bot
     \<and> welcome_messages example_env ''en'' = Inr declared
     \<and> collect (map (\<lambda>message.
           internal_prep_stream_message_by_name reference_backend example_realm example_bot
             (channel_name message) (topic_name message)
             (remove_single_newlines example_env (content message)) example_db) declared)
         = Inr prepared
     \<and> do_send_messages reference_backend prepared example_db = (Inr results, db1)
     \<and> length results = length prepared
     \<and> (\<forall>i < length prepared. \<exists>m \<in> set (Message_objects db1).
            msg_id m = result_message_id (results ! i)
          \<and> msg_recipient m =
              Channel (channel_name (declared ! i)) (topic_name (declared ! i)))
     \<and> (\<forall>channel \<in> {''Zulip'', ''sandbox'', ''general''}.
           \<exists>i < length prepared.
               channel_name (declared ! i) = channel
             \<and> internal_prep_stream_message_by_name reference_backend example_realm example_bot
                   channel (topic_name (declared ! i))
                   (remove_single_newlines example_env (content (declared ! i))) example_db
                 = Inr (prepared ! i))
     \<and> (\<forall>channel \<in> {''Zulip'', ''sandbox'', ''general''}.
           \<exists>m \<in> set (Message_objects db1). \<exists>topic.
               msg_id m \<in> set (map result_message_id results)
             \<and> msg_recipient m = Channel channel topic)"
    by (intro exI conjI)
       (rule example_bot_found declared prepared sent delivered(1) delivered(4) requested
          received)+
  then show ?thesis using run by (rule conjI)
qed

section \<open>Replying to a direct message\<close>

lemma select_apps:
  assumes "s \<in> set [''app'', ''apps'']"
  shows "select_welcome_bot_response E lang s =
     Inr (gettext E lang ''\<newline>You can [download](/apps/) the [mobile and desktop apps](/apps/).\<newline>Zulip also works great in a browser.\<newline>'')"
  unfolding select_welcome_bot_response_def
  by (simp only: assms if_True)

text \<open>
  C9, as amended. \<open>send_welcome_bot_response\<close> lowercases the content of the inbound
  message and selects the reply for it; what it hands to the sending call is
  \<open>remove_single_newlines\<close> of the selected reply, not the selected reply itself. An
  inbound message of ASCII characters whose lowercase form is \<open>app\<close> or \<open>apps\<close>, such as
  \<open>APPS\<close> or \<open>Apps\<close>, gets the apps response.
\<close>

theorem send_welcome_bot_response_reply:
  assumes bot: "get_system_bot B (WELCOME_BOT E) (realm_id (request_realm send_request)) db
                  = Inr welcome_bot"
    and reply: "select_welcome_bot_response E lang
                  (lower (unicode_lower E) (msg_content (request_message send_request)))
                  = Inr reply"
  shows "send_welcome_bot_response B E lang send_request db =
           (case internal_send_private_message B welcome_bot
                   (msg_sender (request_message send_request))
                   (remove_single_newlines E reply) True db of
              (Inl e, db') \<Rightarrow> (Inl e, db')
            | (Inr sent, db') \<Rightarrow> (Inr (), db'))
       \<and> ((\<forall>c \<in> set (msg_content (request_message send_request)). is_ascii c)
            \<and> map ascii_lower (msg_content (request_message send_request)) \<in> {''app'', ''apps''}
          \<longrightarrow> reply = gettext E lang ''\<newline>You can [download](/apps/) the [mobile and desktop apps](/apps/).\<newline>Zulip also works great in a browser.\<newline>'')"
proof (intro conjI impI)
  show "send_welcome_bot_response B E lang send_request db =
           (case internal_send_private_message B welcome_bot
                   (msg_sender (request_message send_request))
                   (remove_single_newlines E reply) True db of
              (Inl e, db') \<Rightarrow> (Inl e, db')
            | (Inr sent, db') \<Rightarrow> (Inr (), db'))"
    unfolding send_welcome_bot_response_def Let_def bot reply
    by (simp only: sum.case)
next
  assume ascii: "(\<forall>c \<in> set (msg_content (request_message send_request)). is_ascii c)
      \<and> map ascii_lower (msg_content (request_message send_request)) \<in> {''app'', ''apps''}"
  then have lowered: "lower (unicode_lower E) (msg_content (request_message send_request))
      = map ascii_lower (msg_content (request_message send_request))"
    by (simp add: lower_def)
  from ascii have "map ascii_lower (msg_content (request_message send_request))
      \<in> set [''app'', ''apps'']"
    by simp
  from select_apps [OF this, of E lang] reply
  show "reply = gettext E lang ''\<newline>You can [download](/apps/) the [mobile and desktop apps](/apps/).\<newline>Zulip also works great in a browser.\<newline>''"
    unfolding lowered by (simp only: sum.inject)
qed

theorem send_welcome_bot_response_reply_witness:
  "get_system_bot reference_backend (WELCOME_BOT example_env)
       (realm_id (request_realm example_request)) example_db = Inr example_bot
   \<and> select_welcome_bot_response example_env ''en''
       (lower (unicode_lower example_env) (msg_content (request_message example_request)))
     = Inr ''\<newline>You can [download](/apps/) the [mobile and desktop apps](/apps/).\<newline>Zulip also works great in a browser.\<newline>''
   \<and> msg_content (request_message example_request) = ''APPS''
   \<and> send_welcome_bot_response reference_backend example_env ''en'' example_request example_db =
           (case internal_send_private_message reference_backend example_bot
                   (msg_sender (request_message example_request))
                   (remove_single_newlines example_env ''\<newline>You can [download](/apps/) the [mobile and desktop apps](/apps/).\<newline>Zulip also works great in a browser.\<newline>'') True example_db of
              (Inl e, db') \<Rightarrow> (Inl e, db')
            | (Inr sent, db') \<Rightarrow> (Inr (), db'))"
proof -
  have bot: "get_system_bot reference_backend (WELCOME_BOT example_env)
       (realm_id (request_realm example_request)) example_db = Inr example_bot"
    by (simp add: reference_backend_def example_env_def example_db_def example_realm_def
          example_bot_def example_user_def example_request_def)
  have content: "msg_content (request_message example_request) = ''APPS''"
    by (simp add: example_request_def)
  have lowered: "lower (unicode_lower example_env) ''APPS'' = ''apps''"
    by (simp add: lower_def is_ascii_def ascii_lower_def)
  have "select_welcome_bot_response example_env ''en'' ''apps''
      = Inr (gettext example_env ''en'' ''\<newline>You can [download](/apps/) the [mobile and desktop apps](/apps/).\<newline>Zulip also works great in a browser.\<newline>'')"
    by (rule select_apps) simp
  also have "gettext example_env ''en'' = (\<lambda>msgid. msgid)"
    by (simp add: example_env_def)
  finally have reply: "select_welcome_bot_response example_env ''en''
       (lower (unicode_lower example_env) (msg_content (request_message example_request)))
     = Inr ''\<newline>You can [download](/apps/) the [mobile and desktop apps](/apps/).\<newline>Zulip also works great in a browser.\<newline>''"
    unfolding content lowered .
  note sent = send_welcome_bot_response_reply [OF bot reply, THEN conjunct1]
  show ?thesis
    by (intro conjI) (rule bot reply content sent)+
qed

theorem send_welcome_bot_response_reply_counterexample:
  "select_welcome_bot_response example_env ''en''
       (lower (unicode_lower example_env) (msg_content (request_message example_request)))
     = Inr ''\<newline>You can [download](/apps/) the [mobile and desktop apps](/apps/).\<newline>Zulip also works great in a browser.\<newline>''
   \<and> map msg_content (Message_objects (snd (send_welcome_bot_response reference_backend
         example_env ''en'' example_request example_db)))
     = [''You can [download](/apps/) the [mobile and desktop apps](/apps/). Zulip also works great in a browser.'']
   \<and> ''You can [download](/apps/) the [mobile and desktop apps](/apps/). Zulip also works great in a browser.''
     \<noteq> ''\<newline>You can [download](/apps/) the [mobile and desktop apps](/apps/).\<newline>Zulip also works great in a browser.\<newline>''"
  by code_simp

section \<open>System-bot provisioning\<close>

lemma count_by_key:
  "finite S \<Longrightarrow>
   length (filter (\<lambda>u. f u \<in> S) us) = (\<Sum>e \<in> S. length (filter (\<lambda>u. f u = e) us))"
proof (induction us)
  case Nil
  then show ?case by simp
next
  case (Cons u us)
  have "(\<Sum>e \<in> S. length (filter (\<lambda>u. f u = e) (u # us)))
      = (\<Sum>e \<in> S. (if f u = e then 1 else 0) + length (filter (\<lambda>u. f u = e) us))"
    by (intro sum.cong) auto
  also have "\<dots> = (\<Sum>e \<in> S. if f u = e then 1 else 0)
      + (\<Sum>e \<in> S. length (filter (\<lambda>u. f u = e) us))"
    by (simp add: sum.distrib)
  also have "(\<Sum>e \<in> S. if f u = e then 1 else 0) = (if f u \<in> S then 1 else (0::nat))"
    using Cons.prems by simp
  finally show ?case using Cons by simp
qed

lemma sum_bounded_eq:
  fixes c :: "'a \<Rightarrow> nat"
  assumes "finite S" and "\<forall>e \<in> S. c e \<le> n"
  shows "(\<Sum>e \<in> S. c e) = n * card S \<longleftrightarrow> (\<forall>e \<in> S. c e = n)"
proof
  assume all: "\<forall>e \<in> S. c e = n"
  then show "(\<Sum>e \<in> S. c e) = n * card S" by simp
next
  assume total: "(\<Sum>e \<in> S. c e) = n * card S"
  have "(\<Sum>e \<in> S. c e) + (\<Sum>e \<in> S. n - c e) = (\<Sum>e \<in> S. n)"
    using assms(2) by (simp add: sum.distrib [symmetric])
  with total have "(\<Sum>e \<in> S. n - c e) = 0" by simp
  with assms(1) have "\<forall>e \<in> S. n - c e = 0" by simp
  with assms(2) show "\<forall>e \<in> S. c e = n" by (simp add: le_antisym)
qed

lemma accounts_of_bot:
  assumes "consistent db"
  shows "length (filter (\<lambda>u. email u = e) (UserProfile_objects db)) \<le> length (Realm_objects db)"
    and "length (filter (\<lambda>u. email u = e) (UserProfile_objects db)) = length (Realm_objects db)
         \<longleftrightarrow> (\<forall>r \<in> set (Realm_objects db). has_bot db r e)"
proof -
  let ?us = "filter (\<lambda>u. email u = e) (UserProfile_objects db)"
  let ?owners = "map (\<lambda>u. realm_id (user_realm u)) ?us"
  let ?ids = "map realm_id (Realm_objects db)"
  from assms have ids: "distinct ?ids"
    and fk: "\<forall>u \<in> set (UserProfile_objects db). realm_id (user_realm u) \<in> set ?ids"
    and unique: "distinct (map (\<lambda>u. (realm_id (user_realm u), email u)) (UserProfile_objects db))"
    by (simp_all add: consistent_def)
  from unique have "distinct (map (\<lambda>u. (realm_id (user_realm u), email u)) ?us)"
    by (rule distinct_map_filter)
  moreover have "map (\<lambda>u. (realm_id (user_realm u), email u)) ?us
      = map (\<lambda>rid. (rid, e)) ?owners"
    by (induction "UserProfile_objects db") auto
  ultimately have "distinct (map (\<lambda>rid. (rid, e)) ?owners)"
    by (simp only:)
  then have owners: "distinct ?owners"
    unfolding distinct_map by (rule conjunct1)
  have subset: "set ?owners \<subseteq> set ?ids" using fk by auto
  have len_owners: "length ?us = length ?owners" by simp
  have card_owners: "card (set ?owners) = length ?owners" by (rule distinct_card [OF owners])
  have card_ids: "card (set ?ids) = length (Realm_objects db)"
    using distinct_card [OF ids] by simp
  have "card (set ?owners) \<le> card (set ?ids)"
    by (rule card_mono [OF _ subset]) simp
  then show "length ?us \<le> length (Realm_objects db)"
    unfolding card_owners card_ids len_owners [symmetric] .
  have "length ?us = length (Realm_objects db) \<longleftrightarrow> card (set ?owners) = card (set ?ids)"
    unfolding card_owners card_ids len_owners [symmetric] ..
  also have "\<dots> \<longleftrightarrow> set ?owners = set ?ids"
  proof
    assume "card (set ?owners) = card (set ?ids)"
    then show "set ?owners = set ?ids"
      by (intro card_subset_eq [OF _ subset]) simp_all
  qed simp
  also have "\<dots> \<longleftrightarrow> (\<forall>r \<in> set (Realm_objects db). has_bot db r e)"
  proof
    assume eq: "set ?owners = set ?ids"
    show "\<forall>r \<in> set (Realm_objects db). has_bot db r e"
    proof
      fix r assume "r \<in> set (Realm_objects db)"
      then have "realm_id r \<in> set ?owners" unfolding eq by simp
      then show "has_bot db r e" by (auto simp: has_bot_def)
    qed
  next
    assume all: "\<forall>r \<in> set (Realm_objects db). has_bot db r e"
    have "set ?ids \<subseteq> set ?owners"
    proof
      fix rid assume "rid \<in> set ?ids"
      then obtain r where "r \<in> set (Realm_objects db)" "rid = realm_id r" by auto
      with all show "rid \<in> set ?owners" by (force simp: has_bot_def)
    qed
    with subset show "set ?owners = set ?ids" by (rule equalityI)
  qed
  finally show "length ?us = length (Realm_objects db)
         \<longleftrightarrow> (\<forall>r \<in> set (Realm_objects db). has_bot db r e)" .
qed

lemma missing_any_by_email:
  assumes emails: "internal_bot_emails E = Inr es" and "distinct es"
    and realms: "Realm_objects db \<noteq> []"
  shows "missing_any_realm_internal_bots E db =
     Inr (\<exists>e \<in> set es. length (filter (\<lambda>u. email u = e) (UserProfile_objects db))
                            \<noteq> length (Realm_objects db))"
proof -
  let ?n = "length (Realm_objects db)"
  let ?U = "UserProfile_objects db"
  let ?M = "filter (\<lambda>u. email u \<in> set es) ?U"
  let ?cnt = "\<lambda>e. length (filter (\<lambda>u. email u = e) ?U)"
  let ?groups = "remdups (map email ?M)"
  let ?kept = "filter (\<lambda>e. length (filter (\<lambda>u. email u = e) ?M) = ?n) ?groups"
  have n: "0 < ?n" using realms by simp
  have in_group: "length (filter (\<lambda>u. email u = e) ?M) = ?cnt e" if "e \<in> set es" for e
  proof -
    have "filter (\<lambda>u. email u = e) ?M = filter (\<lambda>u. email u = e) ?U"
      using that by (auto intro: filter_cong)
    then show ?thesis by simp
  qed
  have kept_set: "set ?kept = {e \<in> set es. ?cnt e = ?n}"
  proof (intro set_eqI iffI)
    fix e assume "e \<in> set ?kept"
    then have "e \<in> set es" "length (filter (\<lambda>u. email u = e) ?M) = ?n" by auto
    with in_group show "e \<in> {e \<in> set es. ?cnt e = ?n}" by simp
  next
    fix e assume "e \<in> {e \<in> set es. ?cnt e = ?n}"
    then have e: "e \<in> set es" "?cnt e = ?n" by simp_all
    with n have "filter (\<lambda>u. email u = e) ?U \<noteq> []" by auto
    then obtain u where "u \<in> set ?U" "email u = e"
      by (auto simp: filter_empty_conv)
    with e have "e \<in> set ?groups" by auto
    with e in_group show "e \<in> set ?kept" by simp
  qed
  have "distinct ?kept" by simp
  then have "length ?kept = card (set ?kept)"
    by (rule distinct_card [symmetric])
  then have kept: "length ?kept = card {e \<in> set es. ?cnt e = ?n}"
    unfolding kept_set .
  have all: "length es = card (set es)"
    using \<open>distinct es\<close> by (simp add: distinct_card)
  have "card {e \<in> set es. ?cnt e = ?n} \<noteq> card (set es) \<longleftrightarrow> (\<exists>e \<in> set es. ?cnt e \<noteq> ?n)"
  proof
    assume "card {e \<in> set es. ?cnt e = ?n} \<noteq> card (set es)"
    then have "{e \<in> set es. ?cnt e = ?n} \<noteq> set es" by auto
    then show "\<exists>e \<in> set es. ?cnt e \<noteq> ?n" by auto
  next
    assume "\<exists>e \<in> set es. ?cnt e \<noteq> ?n"
    then have "{e \<in> set es. ?cnt e = ?n} \<subset> set es" by auto
    then have "card {e \<in> set es. ?cnt e = ?n} < card (set es)"
      by (intro psubset_card_mono) simp_all
    then show "card {e \<in> set es. ?cnt e = ?n} \<noteq> card (set es)" by simp
  qed
  then have decided: "length ?kept \<noteq> length es \<longleftrightarrow> (\<exists>e \<in> set es. ?cnt e \<noteq> ?n)"
    unfolding kept all .
  have "length (filter (\<lambda>(e, count). count = ?n)
                  (map (\<lambda>e. (e, length (filter (\<lambda>u. email u = e) ?M))) ?groups))
        = length ?kept"
    by (simp add: filter_map comp_def)
  with decided show ?thesis
    unfolding missing_any_realm_internal_bots_def emails Let_def by simp
qed

text \<open>
  C4, as amended. When there is at least one organization, the configured bot emails are
  distinct and the database satisfies its integrity constraints,
  \<open>missing_any_realm_internal_bots\<close> returns true exactly when some organization has
  no account for some configured bot email, and this is the case exactly when the number
  of accounts with a bot email differs from the number of organizations times the number
  of configured bots.
\<close>

theorem missing_any_realm_internal_bots_meaning:
  assumes emails: "internal_bot_emails E = Inr es" and different: "distinct es"
    and realms: "Realm_objects db \<noteq> []"
    and integrity: "consistent db"
  shows "missing_any_realm_internal_bots E db =
           Inr (\<exists>r \<in> set (Realm_objects db). \<exists>e \<in> set es. \<not> has_bot db r e)
       \<and> missing_any_realm_internal_bots E db =
           Inr (length (filter (\<lambda>u. email u \<in> set es) (UserProfile_objects db))
                  \<noteq> length (Realm_objects db) * length es)"
proof -
  let ?n = "length (Realm_objects db)"
  let ?cnt = "\<lambda>e. length (filter (\<lambda>u. email u = e) (UserProfile_objects db))"
  note by_email = missing_any_by_email [OF emails different realms]
  note bound = accounts_of_bot(1) [OF integrity]
  note full = accounts_of_bot(2) [OF integrity]
  have "(\<exists>e \<in> set es. ?cnt e \<noteq> ?n)
      \<longleftrightarrow> (\<exists>r \<in> set (Realm_objects db). \<exists>e \<in> set es. \<not> has_bot db r e)"
    unfolding full by blast
  with by_email have first: "missing_any_realm_internal_bots E db =
      Inr (\<exists>r \<in> set (Realm_objects db). \<exists>e \<in> set es. \<not> has_bot db r e)"
    by simp
  have "length (filter (\<lambda>u. email u \<in> set es) (UserProfile_objects db))
      = (\<Sum>e \<in> set es. ?cnt e)"
    by (rule count_by_key) simp
  moreover have "(\<Sum>e \<in> set es. ?cnt e) = ?n * card (set es) \<longleftrightarrow> (\<forall>e \<in> set es. ?cnt e = ?n)"
    by (rule sum_bounded_eq) (simp_all add: bound)
  moreover have "card (set es) = length es"
    using different by (rule distinct_card)
  ultimately have "length (filter (\<lambda>u. email u \<in> set es) (UserProfile_objects db))
        \<noteq> ?n * length es \<longleftrightarrow> (\<exists>e \<in> set es. ?cnt e \<noteq> ?n)"
    by simp
  with by_email have "missing_any_realm_internal_bots E db =
      Inr (length (filter (\<lambda>u. email u \<in> set es) (UserProfile_objects db))
             \<noteq> ?n * length es)"
    by simp
  with first show ?thesis by (rule conjI)
qed

lemma example_emails: "internal_bot_emails example_env = Inr [''reminder-bot@zulip.com'']"
  by (simp add: internal_bot_emails_def percent_format_def example_env_def)

lemma example_consistent: "consistent example_db"
  by (simp add: consistent_def example_db_def example_bot_def example_user_def
        example_realm_def)

theorem missing_any_realm_internal_bots_meaning_witness:
  "internal_bot_emails example_env = Inr [''reminder-bot@zulip.com'']
   \<and> distinct [''reminder-bot@zulip.com'']
   \<and> Realm_objects example_db \<noteq> []
   \<and> consistent example_db
   \<and> \<not> has_bot example_db example_realm ''reminder-bot@zulip.com''
   \<and> missing_any_realm_internal_bots example_env example_db = Inr True"
proof -
  have different: "distinct [''reminder-bot@zulip.com'']" by simp
  have realms: "Realm_objects example_db \<noteq> []" by (simp add: example_db_def)
  have absent: "\<not> has_bot example_db example_realm ''reminder-bot@zulip.com''"
    by (simp add: has_bot_def example_db_def example_bot_def example_user_def)
  have "example_realm \<in> set (Realm_objects example_db)" by (simp add: example_db_def)
  with absent have "\<exists>r \<in> set (Realm_objects example_db).
      \<exists>e \<in> set [''reminder-bot@zulip.com'']. \<not> has_bot example_db r e"
    by auto
  with missing_any_realm_internal_bots_meaning
         [OF example_emails different realms example_consistent, THEN conjunct1]
  have "missing_any_realm_internal_bots example_env example_db = Inr True" by simp
  with example_emails different realms example_consistent absent show ?thesis by simp
qed

theorem missing_any_realm_internal_bots_meaning_counterexample:
  "missing_any_realm_internal_bots example_env empty_db = Inr True
   \<and> internal_bot_emails example_env = Inr [''reminder-bot@zulip.com'']
   \<and> \<not> (\<exists>r \<in> set (Realm_objects empty_db).
           \<exists>e \<in> set [''reminder-bot@zulip.com'']. \<not> has_bot empty_db r e)
   \<and> length (filter (\<lambda>u. email u \<in> set [''reminder-bot@zulip.com''])
                (UserProfile_objects empty_db))
       = length (Realm_objects empty_db) * length [''reminder-bot@zulip.com'']"
  by (simp add: missing_any_realm_internal_bots_def internal_bot_emails_def percent_format_def example_env_def
        empty_db_def)

lemma create_bot_realms [simp]: "Realm_objects (create_bot r e db) = Realm_objects db"
  by (simp add: create_bot_def)

lemma create_bot_has: "has_bot (create_bot r e db) r e"
  by (auto simp: create_bot_def has_bot_def)

lemma create_bot_keeps: "has_bot db r' e' \<Longrightarrow> has_bot (create_bot r e db) r' e'"
  by (auto simp: create_bot_def has_bot_def)

lemma create_bot_consistent:
  assumes "consistent db" and "r \<in> set (Realm_objects db)"
  shows "consistent (create_bot r e db)"
proof (cases "\<exists>u \<in> set (UserProfile_objects db). email u = e \<and> realm_id (user_realm u) = realm_id r")
  case True
  with assms show ?thesis by (simp add: create_bot_def)
next
  case False
  then have "(realm_id r, e) \<notin>
      set (map (\<lambda>u. (realm_id (user_realm u), email u)) (UserProfile_objects db))"
    by auto
  with assms False show ?thesis
    by (auto simp: create_bot_def consistent_def)
qed

lemma fold_create_bot:
  assumes "consistent db" and "r \<in> set (Realm_objects db)"
  shows "consistent (fold (create_bot r) es db)
     \<and> Realm_objects (fold (create_bot r) es db) = Realm_objects db
     \<and> (\<forall>e \<in> set es. has_bot (fold (create_bot r) es db) r e)
     \<and> (\<forall>r' e'. has_bot db r' e' \<longrightarrow> has_bot (fold (create_bot r) es db) r' e')"
  using assms
proof (induction es arbitrary: db)
  case Nil
  then show ?case by simp
next
  case (Cons e es)
  let ?db = "create_bot r e db"
  from Cons.prems have step: "consistent ?db" "r \<in> set (Realm_objects ?db)"
    by (simp_all add: create_bot_consistent)
  from Cons.IH [OF step] have
    ok: "consistent (fold (create_bot r) es ?db)" and
    same: "Realm_objects (fold (create_bot r) es ?db) = Realm_objects db" and
    made: "\<forall>e' \<in> set es. has_bot (fold (create_bot r) es ?db) r e'" and
    kept: "\<And>r' e'. has_bot ?db r' e' \<Longrightarrow> has_bot (fold (create_bot r) es ?db) r' e'"
    by simp_all
  from kept [OF create_bot_has] have "has_bot (fold (create_bot r) es ?db) r e" .
  moreover from kept create_bot_keeps
  have "\<forall>r' e'. has_bot db r' e' \<longrightarrow> has_bot (fold (create_bot r) es ?db) r' e'"
    by blast
  ultimately show ?case using ok same made by simp
qed

lemma for_each_realm_setup:
  assumes emails: "internal_bot_emails E = Inr es"
    and "consistent db" and "set rs \<subseteq> set (Realm_objects db)"
  shows "\<exists>db'. for_each_realm (setup_realm_internal_bots E) rs db = (Inr (), db')
     \<and> consistent db'
     \<and> Realm_objects db' = Realm_objects db
     \<and> (\<forall>r \<in> set rs. \<forall>e \<in> set es. has_bot db' r e)
     \<and> (\<forall>r e. has_bot db r e \<longrightarrow> has_bot db' r e)"
  using assms(2,3)
proof (induction rs arbitrary: db)
  case Nil
  then show ?case by simp
next
  case (Cons r rs)
  let ?db = "fold (create_bot r) es db"
  from Cons.prems have r: "r \<in> set (Realm_objects db)" by simp
  from fold_create_bot [OF Cons.prems(1) r, of es] have
    ok: "consistent ?db" and same: "Realm_objects ?db = Realm_objects db" and
    made: "\<forall>e \<in> set es. has_bot ?db r e" and
    kept: "\<And>r' e'. has_bot db r' e' \<Longrightarrow> has_bot ?db r' e'"
    by simp_all
  from Cons.prems same have "set rs \<subseteq> set (Realm_objects ?db)" by simp
  from Cons.IH [OF ok this] obtain db' where
    run: "for_each_realm (setup_realm_internal_bots E) rs ?db = (Inr (), db')" and
    ok': "consistent db'" and same': "Realm_objects db' = Realm_objects ?db" and
    made': "\<forall>r \<in> set rs. \<forall>e \<in> set es. has_bot db' r e" and
    kept': "\<And>r e. has_bot ?db r e \<Longrightarrow> has_bot db' r e"
    by blast
  have "for_each_realm (setup_realm_internal_bots E) (r # rs) db = (Inr (), db')"
    using run by (simp add: setup_realm_internal_bots_def emails)
  moreover have "\<forall>r' \<in> set (r # rs). \<forall>e \<in> set es. has_bot db' r' e"
    using made made' kept' by auto
  moreover have "\<forall>r e. has_bot db r e \<longrightarrow> has_bot db' r e"
    using kept kept' by blast
  ultimately show ?case using ok' same' same by auto
qed

text \<open>
  C5, as amended. When there is at least one organization, the configured bot emails are
  distinct and the database satisfies its integrity constraints:
  \<open>create_if_missing_realm_internal_bots\<close> changes nothing when the check reports no
  missing bot; and it returns a database on which the check reports no missing bot and on
  which a second call changes nothing.
\<close>

theorem create_if_missing_realm_internal_bots_idempotent:
  assumes emails: "internal_bot_emails E = Inr es" and different: "distinct es"
    and realms: "Realm_objects db \<noteq> []"
    and integrity: "consistent db"
  shows "(missing_any_realm_internal_bots E db = Inr False \<longrightarrow>
            create_if_missing_realm_internal_bots E db = (Inr (), db))
       \<and> (\<exists>db'. create_if_missing_realm_internal_bots E db = (Inr (), db')
              \<and> missing_any_realm_internal_bots E db' = Inr False
              \<and> create_if_missing_realm_internal_bots E db' = (Inr (), db'))"
proof (intro conjI impI)
  assume "missing_any_realm_internal_bots E db = Inr False"
  then show "create_if_missing_realm_internal_bots E db = (Inr (), db)"
    by (simp add: create_if_missing_realm_internal_bots_def)
next
  have settled: "missing_any_realm_internal_bots E d = Inr False"
    if "consistent d" "Realm_objects d = Realm_objects db"
      "\<forall>r \<in> set (Realm_objects d). \<forall>e \<in> set es. has_bot d r e" for d
  proof -
    from that realms have "Realm_objects d \<noteq> []" by simp
    from missing_any_by_email [OF emails different this] accounts_of_bot(2) [OF that(1)] that(3)
    show ?thesis by simp
  qed
  have idle: "create_if_missing_realm_internal_bots E d = (Inr (), d)"
    if "missing_any_realm_internal_bots E d = Inr False" for d
    using that by (simp add: create_if_missing_realm_internal_bots_def)
  show "\<exists>db'. create_if_missing_realm_internal_bots E db = (Inr (), db')
              \<and> missing_any_realm_internal_bots E db' = Inr False
              \<and> create_if_missing_realm_internal_bots E db' = (Inr (), db')"
  proof (cases "missing_any_realm_internal_bots E db = Inr False")
    case True
    with idle [OF True] show ?thesis by blast
  next
    case False
    from missing_any_by_email [OF emails different realms] False
    have missing: "missing_any_realm_internal_bots E db = Inr True" by auto
    from for_each_realm_setup [OF emails integrity subset_refl] obtain db' where
      run: "for_each_realm (setup_realm_internal_bots E) (Realm_objects db) db = (Inr (), db')" and
      ok: "consistent db'" and same: "Realm_objects db' = Realm_objects db" and
      made: "\<forall>r \<in> set (Realm_objects db). \<forall>e \<in> set es. has_bot db' r e"
      by blast
    from missing run have "create_if_missing_realm_internal_bots E db = (Inr (), db')"
      by (simp add: create_if_missing_realm_internal_bots_def)
    moreover from made same have "missing_any_realm_internal_bots E db' = Inr False"
      by (intro settled [OF ok same]) simp
    ultimately show ?thesis using idle by blast
  qed
qed

theorem create_if_missing_realm_internal_bots_idempotent_witness:
  "internal_bot_emails example_env = Inr [''reminder-bot@zulip.com'']
   \<and> distinct [''reminder-bot@zulip.com'']
   \<and> Realm_objects example_db \<noteq> []
   \<and> consistent example_db
   \<and> missing_any_realm_internal_bots example_env example_db = Inr True
   \<and> (\<exists>db'. create_if_missing_realm_internal_bots example_env example_db = (Inr (), db')
          \<and> missing_any_realm_internal_bots example_env db' = Inr False
          \<and> create_if_missing_realm_internal_bots example_env db' = (Inr (), db'))"
proof -
  have different: "distinct [''reminder-bot@zulip.com'']" by simp
  have realms: "Realm_objects example_db \<noteq> []" by (simp add: example_db_def)
  have missing: "missing_any_realm_internal_bots example_env example_db = Inr True"
    by code_simp
  note repaired = create_if_missing_realm_internal_bots_idempotent
    [OF example_emails different realms example_consistent, THEN conjunct2]
  show ?thesis
    by (intro conjI) (rule example_emails different realms example_consistent missing repaired)+
qed

theorem create_if_missing_realm_internal_bots_idempotent_counterexample:
  "create_if_missing_realm_internal_bots example_env empty_db = (Inr (), empty_db)
   \<and> missing_any_realm_internal_bots example_env empty_db = Inr True"
  by (simp add: create_if_missing_realm_internal_bots_def missing_any_realm_internal_bots_def
        internal_bot_emails_def percent_format_def example_env_def empty_db_def)

end
